theory Spec2Isabelle
  imports Main
begin

text \<open>
  The handlers of four React components: ProjectSidebar (\<open>fetchProjects\<close>,
  \<open>getMockProjects\<close>, \<open>handleDeleteProject\<close>), InviteNotifications (\<open>fetchInvites\<close>,
  \<open>handleInvite\<close>), AddProjectModal (\<open>handleSubmit\<close>) and ThinkBuddyAssistant
  (\<open>formatMessageText\<close>, \<open>loadChatHistory\<close>, \<open>handleSendMessage\<close>, \<open>clearChatHistory\<close>).
  A handler is a function from the component's state, and from what the environment
  answers to its awaits, to the state it ends in and the list of its effects.
\<close>

section \<open>JavaScript strings and values\<close>

text \<open>
  A JavaScript string is a sequence of UTF-16 code units.  The components compare, trim
  and pattern-match strings code unit by code unit, so a string is modelled as the list
  of its code units; \<open>js\<close> turns a literal of the source into that list.
\<close>

type_synonym jsstring = "nat list"

definition js :: "string \<Rightarrow> jsstring" where
  "js s = map of_char s"

text \<open>
  \<open>String.prototype.trim\<close> and the regular-expression class \<open>\s\<close> use the same set:
  WhiteSpace and LineTerminator of ECMAScript.
\<close>

definition isWhiteSpace :: "nat \<Rightarrow> bool" where
  "isWhiteSpace c \<longleftrightarrow>
     c = 9 \<or> c = 10 \<or> c = 11 \<or> c = 12 \<or> c = 13 \<or> c = 32 \<or> c = 160 \<or> c = 5760 \<or>
     (8192 \<le> c \<and> c \<le> 8202) \<or> c = 8232 \<or> c = 8233 \<or> c = 8239 \<or> c = 8287 \<or>
     c = 12288 \<or> c = 65279"

definition trim :: "jsstring \<Rightarrow> jsstring" where
  "trim s = rev (dropWhile isWhiteSpace (rev (dropWhile isWhiteSpace s)))"

text \<open>\<open>s.split(sep)\<close> for a separator of one code unit; \<open>cur\<close> is the piece being read.\<close>

fun split_from :: "nat \<Rightarrow> jsstring \<Rightarrow> jsstring \<Rightarrow> jsstring list" where
  "split_from sep cur [] = [rev cur]"
| "split_from sep cur (c # cs) =
     (if c = sep then rev cur # split_from sep [] cs else split_from sep (c # cur) cs)"

definition split_on :: "nat \<Rightarrow> jsstring \<Rightarrow> jsstring list" where
  "split_on sep s = split_from sep [] s"

text \<open>\<open>hay.includes(needle)\<close>\<close>

fun starts_with :: "jsstring \<Rightarrow> jsstring \<Rightarrow> bool" where
  "starts_with [] s = True"
| "starts_with (p # ps) [] = False"
| "starts_with (p # ps) (c # cs) = (p = c \<and> starts_with ps cs)"

fun includes_js :: "jsstring \<Rightarrow> jsstring \<Rightarrow> bool" where
  "includes_js needle [] = (needle = [])"
| "includes_js needle (c # cs) = (starts_with needle (c # cs) \<or> includes_js needle cs)"

text \<open>
  A value that is a string, \<open>null\<close> or \<open>undefined\<close> is a \<open>jsstring option\<close>; it is
  truthy when it is a non-empty string.  \<open>or_else v d\<close> is \<open>v || d\<close>.
\<close>

definition truthy :: "jsstring option \<Rightarrow> bool" where
  "truthy v = (case v of None \<Rightarrow> False | Some s \<Rightarrow> s \<noteq> [])"

definition or_else :: "jsstring option \<Rightarrow> jsstring \<Rightarrow> jsstring" where
  "or_else v d = (case v of None \<Rightarrow> d | Some s \<Rightarrow> if s = [] then d else s)"

text \<open>The decimal digits of a number, as a template literal prints it.\<close>

fun show_nat :: "nat \<Rightarrow> jsstring" where
  "show_nat n = (if n < 10 then [48 + n] else show_nat (n div 10) @ [48 + n mod 10])"

definition show_int :: "int \<Rightarrow> jsstring" where
  "show_int i = (if i < 0 then 45 # show_nat (nat (- i)) else show_nat (nat i))"

section \<open>Promises, responses and observable effects\<close>

text \<open>
  Every \<open>await\<close> of the source is inside a \<open>try\<close>: the awaited promise either fulfils with
  a value (\<open>Inr\<close>) or rejects with an error (\<open>Inl\<close>), and the rejection is the exception that
  the \<open>catch\<close> block receives.  Errors carry their \<open>message\<close>.
\<close>

datatype js_error = Error (message: jsstring)

text \<open>
  A fetched response: its status, and what reading its body as text or as JSON gives
  (both are promises of their own, and either can reject, for instance when the
  connection breaks while the body arrives).  \<open>ok\<close> is the Fetch standard's: a status
  from 200 to 299.  A body that parses is taken to be a JSON value of the kind the handler
  reads: an object with the properties of the endpoint, or, for the team list, any value,
  array or not.
\<close>

record 'a http_response =
  status :: nat
  text_body :: "js_error + jsstring"
  json_body :: "js_error + 'a"

definition ok :: "'a http_response \<Rightarrow> bool" where
  "ok r \<longleftrightarrow> 200 \<le> status r \<and> status r \<le> 299"

text \<open>
  What the environment answers to one run of a handler: what \<open>await getIdToken()\<close> gives
  (the auth context is a collaborator, so the call may reject, or return no token), then
  what \<open>await fetch(...)\<close> gives.
\<close>

record 'a io =
  token_result :: "js_error + jsstring option"
  fetch_result :: "js_error + 'a http_response"

text \<open>\<open>process.env.NEXT_PUBLIC_API_URL || "http://127.0.0.2:8000"\<close>\<close>

definition API_BASE_URL :: "jsstring option \<Rightarrow> jsstring" where
  "API_BASE_URL env_url = or_else env_url (js ''http://127.0.0.2:8000'')"

text \<open>
  A time stamp is either the string a server sent or \<open>new Date(ms).toISOString()\<close>, kept
  as the milliseconds it prints.  \<open>clock n\<close> is the \<open>n\<close>-th reading of the clock in a run.
\<close>

datatype timestamp = ISOString int | ServerTime jsstring | NoTime

type_synonym clock = "nat \<Rightarrow> int"

record member =
  user_id :: jsstring
  email :: jsstring
  name :: jsstring
  role :: jsstring

record project =
  teamId :: jsstring
  teamName :: jsstring
  description :: jsstring
  members :: "member list"
  created_at :: timestamp
  last_message_at :: timestamp

text \<open>The body of a request, before \<open>JSON.stringify\<close>.\<close>

datatype body =
    NoBody
  | ProjectData jsstring jsstring "jsstring list"
  | ChatRequest jsstring "jsstring option" bool

record request =
  http_method :: jsstring
  url :: jsstring
  bearer :: "jsstring option"
  payload :: body

text \<open>
  The effects a handler has on its surroundings, in the order they happen: calls of the
  auth and toast collaborators, of the callbacks passed as props, of \<open>fetch\<close>, and of
  another handler of the same component that runs on its own (it is not awaited).
  A call of a callback or of a toast returns normally.  Writes to the console are left
  out, and so are the request headers other than the bearer token.
\<close>

datatype event =
    GetIdToken
  | Fetch request
  | ShowSuccess jsstring
  | ShowError jsstring
  | ShowConfirm jsstring
  | StopPropagation
  | PreventDefault
  | OnProjectsLoaded "project list"
  | OnProjectSelect "project option"
  | OnInviteHandled
  | OnProjectCreated project
  | OnClose
  | CallFetchProjects
  | CallFetchInvites

section \<open>ProjectSidebar\<close>

text \<open>
  The signed-in user of the auth context (\<open>null\<close> when nobody is signed in).  Its email
  is \<open>auth_email\<close> here, the member's being \<open>email\<close>.
\<close>

record auth_user =
  uid :: jsstring
  auth_email :: "jsstring option"
  displayName :: "jsstring option"

record sidebar_state =
  projects :: "project list"
  loading :: bool
  error :: "jsstring option"
  offlineMode :: bool
  showNotifications :: bool
  showAddMemberModal :: bool
  selectedTeamId :: "jsstring option"

text \<open>The props the handlers read: the selected project, and whether \<open>onProjectsLoaded\<close> is given.\<close>

record sidebar_props =
  props_selectedProject :: "project option"
  has_onProjectsLoaded :: bool

text \<open>
  \<open>getMockProjects\<close>: the member built from the user, \<open>user?.uid || "mock-user"\<close> and so on,
  and the two projects.  The clock is read four times.
\<close>

definition mock_self :: "auth_user option \<Rightarrow> member" where
  "mock_self user =
     \<lparr> user_id = or_else (map_option uid user) (js ''mock-user''),
       email = or_else (Option.bind user auth_email) (js ''user@example.com''),
       name = or_else (Option.bind user displayName) (js ''User''),
       role = js ''admin'' \<rparr>"

definition getMockProjects :: "auth_user option \<Rightarrow> clock \<Rightarrow> project list" where
  "getMockProjects user clock =
     [ \<lparr> teamId = js ''mock-1'',
         teamName = js ''Sample Project'',
         description = js ''This is a sample project for demonstration'',
         members = [mock_self user],
         created_at = ISOString (clock 0),
         last_message_at = ISOString (clock 1) \<rparr>,
       \<lparr> teamId = js ''mock-2'',
         teamName = js ''Development Team'',
         description = js ''Working on the new features'',
         members =
           [ mock_self user,
             \<lparr> user_id = js ''mock-dev-1'', email = js ''dev1@example.com'',
               name = js ''Developer 1'', role = js ''member'' \<rparr> ],
         created_at = ISOString (clock 2 - 86400000),
         last_message_at = ISOString (clock 3 - 3600000) \<rparr> ]"

definition teams_request :: "jsstring option \<Rightarrow> jsstring option \<Rightarrow> request" where
  "teams_request env_url token =
     \<lparr> http_method = js ''GET'', url = API_BASE_URL env_url @ js ''/teams/'',
       bearer = token, payload = NoBody \<rparr>"

text \<open>
  The \<open>try\<close> block of \<open>fetchProjects\<close>: the error it throws, if any, the state it has
  reached and the effects so far.  The JSON of a good response is a project list, or
  \<open>None\<close> when it is not an array.
\<close>

definition fetchProjects_try ::
  "jsstring option \<Rightarrow> sidebar_props \<Rightarrow> (project list option) io \<Rightarrow> sidebar_state
     \<Rightarrow> js_error option \<times> sidebar_state \<times> event list" where
  "fetchProjects_try env_url props io s =
     (let s1 = s\<lparr>loading := True, error := None, offlineMode := False\<rparr> in
      case token_result io of
        Inl e \<Rightarrow> (Some e, s1, [GetIdToken])
      | Inr token \<Rightarrow>
          if \<not> truthy token
          then (Some (Error (js ''No authentication token available'')), s1, [GetIdToken])
          else
            let evs = [GetIdToken, Fetch (teams_request env_url token)] in
            case fetch_result io of
              Inl e \<Rightarrow> (Some e, s1, evs)
            | Inr response \<Rightarrow>
                if \<not> ok response then
                  (case text_body response of
                     Inl e \<Rightarrow> (Some e, s1, evs)
                   | Inr errorText \<Rightarrow>
                       if status response = 401
                       then (Some (Error (js ''Authentication failed. Please login again.'')), s1, evs)
                       else if status response = 500
                       then (Some (Error (js ''Server error. Please try again later.'')), s1, evs)
                       else if status response = 404
                       then (None, s1\<lparr>projects := []\<rparr>, evs)
                       else (Some (Error (js ''Failed to fetch projects: '' @ show_nat (status response))),
                             s1, evs))
                else
                  (case json_body response of
                     Inl e \<Rightarrow> (Some e, s1, evs)
                   | Inr data \<Rightarrow>
                       let projectsData = (case data of Some ps \<Rightarrow> ps | None \<Rightarrow> []) in
                       (None, s1\<lparr>projects := projectsData\<rparr>,
                        evs @ (if has_onProjectsLoaded props
                               then [OnProjectsLoaded projectsData] else []))))"

text \<open>\<open>fetchProjects\<close>: the \<open>try\<close> block, the \<open>catch\<close> block on an error, then \<open>finally\<close>.\<close>

definition fetchProjects ::
  "jsstring option \<Rightarrow> auth_user option \<Rightarrow> clock \<Rightarrow> sidebar_props
     \<Rightarrow> (project list option) io \<Rightarrow> sidebar_state \<Rightarrow> sidebar_state \<times> event list" where
  "fetchProjects env_url user clock props io s =
     (case fetchProjects_try env_url props io s of
        (None, s1, evs) \<Rightarrow> (s1\<lparr>loading := False\<rparr>, evs)
      | (Some err, s1, evs) \<Rightarrow>
          let s2 = s1\<lparr>error := Some (or_else (Some (message err)) (js ''Failed to load projects''))\<rparr>;
              s3 = s2\<lparr>offlineMode := True\<rparr>;
              mockProjects = getMockProjects user clock;
              s4 = s3\<lparr>projects := mockProjects\<rparr>
          in (s4\<lparr>loading := False\<rparr>,
              evs @ (if has_onProjectsLoaded props then [OnProjectsLoaded mockProjects] else [])))"



section \<open>InviteNotifications\<close>

text \<open>The handlers only store and replace the fetched invites, so an invite is any value.\<close>

record 'i invite_state =
  invites :: "'i list"
  invites_loading :: bool

definition invites_request :: "jsstring option \<Rightarrow> jsstring option \<Rightarrow> request" where
  "invites_request env_url token =
     \<lparr> http_method = js ''GET'', url = API_BASE_URL env_url @ js ''/teams/invites/my'',
       bearer = token, payload = NoBody \<rparr>"

text \<open>\<open>fetchInvites\<close>: errors are only logged; \<open>finally\<close> ends the loading state on every path.\<close>

definition fetchInvites ::
  "jsstring option \<Rightarrow> ('i list) io \<Rightarrow> 'i invite_state \<Rightarrow> 'i invite_state \<times> event list" where
  "fetchInvites env_url io s =
     (let s1 = s\<lparr>invites_loading := True\<rparr> in
      case token_result io of
        Inl e \<Rightarrow> (s1\<lparr>invites_loading := False\<rparr>, [GetIdToken])
      | Inr token \<Rightarrow>
          if \<not> truthy token then (s1\<lparr>invites_loading := False\<rparr>, [GetIdToken])
          else
            let evs = [GetIdToken, Fetch (invites_request env_url token)] in
            case fetch_result io of
              Inl e \<Rightarrow> (s1\<lparr>invites_loading := False\<rparr>, evs)
            | Inr response \<Rightarrow>
                if ok response then
                  (case json_body response of
                     Inl e \<Rightarrow> (s1\<lparr>invites_loading := False\<rparr>, evs)
                   | Inr data \<Rightarrow> (s1\<lparr>invites := data, invites_loading := False\<rparr>, evs))
                else (s1\<lparr>invites_loading := False\<rparr>, evs))"

definition invite_request ::
  "jsstring option \<Rightarrow> jsstring option \<Rightarrow> jsstring \<Rightarrow> jsstring \<Rightarrow> request" where
  "invite_request env_url token inviteId action =
     \<lparr> http_method = js ''POST'',
       url = API_BASE_URL env_url @ js ''/teams/invites/'' @ inviteId @ js ''/'' @ action,
       bearer = token, payload = NoBody \<rparr>"

text \<open>
  \<open>handleInvite\<close>: \<open>has_onInviteHandled\<close> tells whether the parent passed the callback.
  On success \<open>fetchInvites()\<close> is started and not awaited; \<open>refetch\<close> is what the
  environment answers to it, and the state returned is the one after it has settled.
  The handler sets no state itself.
\<close>

definition handleInvite ::
  "jsstring option \<Rightarrow> bool \<Rightarrow> jsstring \<Rightarrow> jsstring \<Rightarrow> unit io \<Rightarrow> ('i list) io
     \<Rightarrow> 'i invite_state \<Rightarrow> 'i invite_state \<times> event list" where
  "handleInvite env_url has_onInviteHandled inviteId action io refetch s =
     (case token_result io of
        Inl e \<Rightarrow> (s, [GetIdToken, ShowError (js ''Failed to '' @ action @ js '' invite'')])
      | Inr token \<Rightarrow>
          let evs = [GetIdToken, Fetch (invite_request env_url token inviteId action)] in
          case fetch_result io of
            Inl e \<Rightarrow> (s, evs @ [ShowError (js ''Failed to '' @ action @ js '' invite'')])
          | Inr response \<Rightarrow>
              if \<not> ok response
              then (s, evs @ [ShowError (js ''Failed to '' @ action @ js '' invite'')])
              else
                (fst (fetchInvites env_url refetch s),
                 evs @ [ShowSuccess (js ''Invite '' @ action @ js ''ed successfully''),
                        CallFetchInvites] @
                 (if action = js ''accept'' \<and> has_onInviteHandled then [OnInviteHandled] else [])))"

section \<open>AddProjectModal\<close>

record form_data =
  form_teamName :: jsstring
  form_description :: jsstring
  memberEmails :: jsstring

record modal_state =
  formData :: form_data
  modal_loading :: bool
  modal_error :: "jsstring option"

text \<open>
  The JSON object of a response to the POST: its \<open>detail\<close> property, converted to a string
  as \<open>new Error\<close> does, and the object itself read as a project.
\<close>

record created_json =
  detail :: "jsstring option"
  created :: project

definition empty_form :: form_data where
  "empty_form = \<lparr> form_teamName = [], form_description = [], memberEmails = [] \<rparr>"

definition create_request :: "jsstring option \<Rightarrow> jsstring option \<Rightarrow> form_data \<Rightarrow> request" where
  "create_request env_url token fd =
     \<lparr> http_method = js ''POST'', url = API_BASE_URL env_url @ js ''/teams/'',
       bearer = token,
       payload = ProjectData (trim (form_teamName fd)) (trim (form_description fd))
                   (filter (\<lambda>email. length email > 0) (map trim (split_on 44 (memberEmails fd)))) \<rparr>"

text \<open>The \<open>try\<close> block of \<open>handleSubmit\<close>, entered once the name has passed the check.\<close>

definition handleSubmit_try ::
  "jsstring option \<Rightarrow> created_json io \<Rightarrow> modal_state
     \<Rightarrow> js_error option \<times> modal_state \<times> event list" where
  "handleSubmit_try env_url io s =
     (let s1 = s\<lparr>modal_loading := True, modal_error := None\<rparr> in
      case token_result io of
        Inl e \<Rightarrow> (Some e, s1, [GetIdToken])
      | Inr token \<Rightarrow>
          let evs = [GetIdToken, Fetch (create_request env_url token (formData s))] in
          case fetch_result io of
            Inl e \<Rightarrow> (Some e, s1, evs)
          | Inr response \<Rightarrow>
              if \<not> ok response then
                (case json_body response of
                   Inl e \<Rightarrow> (Some e, s1, evs)
                 | Inr errorData \<Rightarrow>
                     (Some (Error (or_else (detail errorData) (js ''Failed to create project''))),
                      s1, evs))
              else
                (case json_body response of
                   Inl e \<Rightarrow> (Some e, s1, evs)
                 | Inr newProject \<Rightarrow>
                     (None, s1\<lparr>formData := empty_form\<rparr>,
                      evs @ [OnProjectCreated (created newProject), OnClose])))"

definition is_network_failure :: "js_error \<Rightarrow> bool" where
  "is_network_failure err \<longleftrightarrow>
     includes_js (js ''Failed to fetch'') (message err) \<or>
     includes_js (js ''NetworkError'') (message err)"

definition mockProject :: "clock \<Rightarrow> form_data \<Rightarrow> project" where
  "mockProject clock fd =
     \<lparr> teamId = js ''mock-'' @ show_int (clock 0),
       teamName = trim (form_teamName fd),
       description = trim (form_description fd),
       members = [\<lparr> user_id = js ''mock-user'', email = js ''user@example.com'',
                    name = js ''User'', role = js ''admin'' \<rparr>],
       created_at = ISOString (clock 1),
       last_message_at = NoTime \<rparr>"

text \<open>
  \<open>handleSubmit\<close>: the check of the name comes before the \<open>try\<close>, so its \<open>return\<close> skips
  \<open>finally\<close> too.  The \<open>catch\<close> block reads the form of the render that submitted.
\<close>

definition handleSubmit ::
  "jsstring option \<Rightarrow> clock \<Rightarrow> created_json io \<Rightarrow> modal_state \<Rightarrow> modal_state \<times> event list" where
  "handleSubmit env_url clock io s =
     (if trim (form_teamName (formData s)) = []
      then (s\<lparr>modal_error := Some (js ''Project name is required'')\<rparr>, [PreventDefault])
      else
        case handleSubmit_try env_url io s of
          (None, s1, evs) \<Rightarrow> (s1\<lparr>modal_loading := False\<rparr>, PreventDefault # evs)
        | (Some err, s1, evs) \<Rightarrow>
            if is_network_failure err
            then (s1\<lparr>formData := empty_form, modal_loading := False\<rparr>,
                  PreventDefault # evs @ [OnProjectCreated (mockProject clock (formData s)), OnClose])
            else (s1\<lparr>modal_error := Some (or_else (Some (message err)) (js ''Failed to create project'')),
                     modal_loading := False\<rparr>,
                  PreventDefault # evs))"

section \<open>ThinkBuddyAssistant: formatMessageText\<close>

text \<open>
  The \<open>i\<close> flag of a pattern without the \<open>u\<close> flag compares canonicalised code units:
  the upper-case image, except that a code unit from 128 on is never mapped below 128.
  Every letter of the patterns is ASCII, so only the ASCII case pairs can match; a code
  unit outside \<open>a\<close>..\<open>z\<close> is left as it is here.
\<close>

definition canonicalize :: "nat \<Rightarrow> nat" where
  "canonicalize c = (if 97 \<le> c \<and> c \<le> 122 then c - 32 else c)"

text \<open>Match the literal \<open>pat\<close> at the start of the input, ignoring case: the rest, if it matches.\<close>

fun match_prefix_i :: "jsstring \<Rightarrow> jsstring \<Rightarrow> jsstring option" where
  "match_prefix_i [] s = Some s"
| "match_prefix_i (p # ps) [] = None"
| "match_prefix_i (p # ps) (c # cs) =
     (if canonicalize c = canonicalize p then match_prefix_i ps cs else None)"

definition SUBHEADINGS :: "jsstring list" where
  "SUBHEADINGS = [js ''summary'', js ''important points'', js ''key points'',
     js ''main topics'', js ''answer'', js ''solution'', js ''steps'', js ''recommendations'']"

text \<open>
  \<open>/^(summary|...|recommendations):?\s*$/i.test(line)\<close>: one of the words, an optional
  colon, then white space up to the end of the input.
\<close>

definition is_subheading_line :: "jsstring \<Rightarrow> bool" where
  "is_subheading_line line =
     list_ex (\<lambda>kw. case match_prefix_i kw line of
                      None \<Rightarrow> False
                    | Some r \<Rightarrow> list_all isWhiteSpace r \<or>
                        (case r of [] \<Rightarrow> False | c # t \<Rightarrow> c = 58 \<and> list_all isWhiteSpace t))
       SUBHEADINGS"

text \<open>
  \<open>line.replace(/^(summary|...|recommendations):\s*/i, '')\<close>: the alternatives are tried
  in order; the first word followed by a colon is removed with the white space after it.
\<close>

fun strip_subheading_prefix :: "jsstring list \<Rightarrow> jsstring \<Rightarrow> jsstring" where
  "strip_subheading_prefix [] line = line"
| "strip_subheading_prefix (kw # kws) line =
     (case match_prefix_i kw line of
        Some (c # t) \<Rightarrow>
          if c = 58 then dropWhile isWhiteSpace t else strip_subheading_prefix kws line
      | _ \<Rightarrow> strip_subheading_prefix kws line)"

definition isDigit :: "nat \<Rightarrow> bool" where
  "isDigit c \<longleftrightarrow> 48 \<le> c \<and> c \<le> 57"

text \<open>\<open>/^\d+[\.\)]\s/\<close>\<close>

definition is_numbered_item :: "jsstring \<Rightarrow> bool" where
  "is_numbered_item line =
     (takeWhile isDigit line \<noteq> [] \<and>
      (case dropWhile isDigit line of
         p # w # _ \<Rightarrow> (p = 46 \<or> p = 41) \<and> isWhiteSpace w
       | _ \<Rightarrow> False))"

text \<open>\<open>/^[-\<bullet>]\s/\<close>, the bullet being U+2022\<close>

definition is_bullet_item :: "jsstring \<Rightarrow> bool" where
  "is_bullet_item line =
     (case line of b # w # _ \<Rightarrow> (b = 45 \<or> b = 8226) \<and> isWhiteSpace w | _ \<Rightarrow> False)"

text \<open>
  \<open>/^[A-Z][^:]{2,30}:\s*$/\<close>: the counted class cannot read a colon, so it ends at the
  first colon after the capital.
\<close>

definition is_short_title :: "jsstring \<Rightarrow> bool" where
  "is_short_title line =
     (case line of
        [] \<Rightarrow> False
      | c # rest \<Rightarrow>
          65 \<le> c \<and> c \<le> 90 \<and>
          2 \<le> length (takeWhile (\<lambda>x. x \<noteq> 58) rest) \<and>
          length (takeWhile (\<lambda>x. x \<noteq> 58) rest) \<le> 30 \<and>
          (case dropWhile (\<lambda>x. x \<noteq> 58) rest of
             [] \<Rightarrow> False
           | _ # t \<Rightarrow> list_all isWhiteSpace t))"

text \<open>The elements returned for a line: \<open><br key/>\<close> or \<open><p key className>text</p>\<close>.\<close>

datatype element = Br (key: nat) | Para (key: nat) (className: jsstring) (children: jsstring)

definition format_line :: "nat \<times> jsstring \<Rightarrow> element option" where
  "format_line il =
     (let index = fst il;
          trimmedLine = trim (snd il)
      in if is_subheading_line trimmedLine then None
         else
           let trimmedLine = strip_subheading_prefix SUBHEADINGS trimmedLine;
               isHeading = (is_numbered_item trimmedLine \<or> is_bullet_item trimmedLine \<or>
                            is_short_title trimmedLine)
           in if trimmedLine = [] then Some (Br index)
              else if isHeading then Some (Para index (js ''font-bold mt-2 mb-1'') trimmedLine)
              else Some (Para index (js ''mb-1'') trimmedLine))"

text \<open>
  \<open>formatMessageText\<close>: \<open>None\<close> for a missing or empty text (\<open>null\<close>), otherwise one
  entry per line of the text, \<open>None\<close> where the callback returns \<open>null\<close> (React renders
  nothing for it).
\<close>

definition formatMessageText :: "jsstring option \<Rightarrow> element option list option" where
  "formatMessageText text =
     (case text of
        None \<Rightarrow> None
      | Some t \<Rightarrow>
          if t = [] then None
          else
            let formattedText = filter (\<lambda>c. c \<noteq> 42) t;
                lines = split_on 10 formattedText
            in Some (map format_line (enumerate 0 lines)))"

section \<open>ThinkBuddyAssistant: history and sending\<close>

record source =
  sender :: jsstring
  source_content :: jsstring

text \<open>
  A chat turn.  \<open>sources\<close> is \<open>None\<close> where the object has no such property, and
  \<open>isError\<close> is false where it has none.
\<close>

record chat_message =
  msg_id :: int
  msg_role :: jsstring
  content :: jsstring
  msg_timestamp :: timestamp
  sources :: "source list option"
  isError :: bool

record assistant_state =
  messages :: "chat_message list"
  inputMessage :: jsstring
  isTyping :: bool
  selectedProject :: "project option"
  chat_loading :: bool
  chat_error :: "jsstring option"

definition PREDEFINED_PROMPTS :: "jsstring list" where
  "PREDEFINED_PROMPTS = [js ''Help me debug an issue'', js ''Suggest best practices'',
     js ''Generate project ideas'', js ''Review my code'']"

text \<open>The JSON objects of the history and chat endpoints, as far as the handlers read them.\<close>

record history_entry =
  entry_role :: jsstring
  entry_content :: jsstring
  entry_timestamp :: jsstring

record history_json =
  history :: "history_entry list option"

record chat_json =
  chat_detail :: "jsstring option"
  chat_response :: jsstring
  chat_timestamp :: jsstring
  chat_sources :: "source list option"

text \<open>\<open>selectedProject?.teamId\<close>\<close>

definition projectId_of :: "project option \<Rightarrow> jsstring option" where
  "projectId_of sel = map_option teamId sel"

definition history_request :: "jsstring option \<Rightarrow> jsstring option \<Rightarrow> project option \<Rightarrow> request" where
  "history_request env_url token sel =
     \<lparr> http_method = js ''GET'',
       url = (case projectId_of sel of
                None \<Rightarrow> API_BASE_URL env_url @ js ''/api/assistant/history''
              | Some projectId \<Rightarrow>
                  if projectId = [] then API_BASE_URL env_url @ js ''/api/assistant/history''
                  else API_BASE_URL env_url @ js ''/api/assistant/history?project_id='' @ projectId),
       bearer = token, payload = NoBody \<rparr>"

definition formatted_history :: "history_entry list \<Rightarrow> chat_message list" where
  "formatted_history h =
     map (\<lambda>(idx, msg). \<lparr> msg_id = int idx, msg_role = entry_role msg, content = entry_content msg,
                          msg_timestamp = ServerTime (entry_timestamp msg),
                          sources = None, isError = False \<rparr>)
       (enumerate 0 h)"

definition welcome_message :: "project option \<Rightarrow> clock \<Rightarrow> chat_message" where
  "welcome_message sel clock =
     \<lparr> msg_id = 1, msg_role = js ''assistant'',
       content =
         (if truthy (projectId_of sel)
          then js ''Hello! I'' @ [39] @ js ''m ThinkBuddy. I can help you with questions about '' @
               (case sel of Some p \<Rightarrow> teamName p | None \<Rightarrow> js ''undefined'') @
               js ''. I have access to all team messages and can provide context-aware assistance!''
          else js ''Hello! I'' @ [39] @
               js ''m ThinkBuddy, your AI assistant. Select a project to get started with context-aware assistance!''),
       msg_timestamp = ISOString (clock 0), sources = None, isError = False \<rparr>"

definition fallback_message :: "clock \<Rightarrow> chat_message" where
  "fallback_message clock =
     \<lparr> msg_id = 1, msg_role = js ''assistant'',
       content = js ''Hello! I'' @ [39] @ js ''m ThinkBuddy, your AI assistant. How can I help you today?'',
       msg_timestamp = ISOString (clock 0), sources = None, isError = False \<rparr>"

text \<open>The \<open>try\<close> block of \<open>loadChatHistory\<close>.  The token is not checked before the fetch.\<close>

definition loadChatHistory_try ::
  "jsstring option \<Rightarrow> clock \<Rightarrow> history_json io \<Rightarrow> assistant_state
     \<Rightarrow> js_error option \<times> assistant_state \<times> event list" where
  "loadChatHistory_try env_url clock io s =
     (let s1 = s\<lparr>chat_loading := True, chat_error := None\<rparr> in
      case token_result io of
        Inl e \<Rightarrow> (Some e, s1, [GetIdToken])
      | Inr token \<Rightarrow>
          let evs = [GetIdToken, Fetch (history_request env_url token (selectedProject s))] in
          case fetch_result io of
            Inl e \<Rightarrow> (Some e, s1, evs)
          | Inr response \<Rightarrow>
              if \<not> ok response then (Some (Error (js ''Failed to load chat history'')), s1, evs)
              else
                (case json_body response of
                   Inl e \<Rightarrow> (Some e, s1, evs)
                 | Inr data \<Rightarrow>
                     (case history data of
                        None \<Rightarrow> (None, s1\<lparr>messages := [welcome_message (selectedProject s) clock]\<rparr>, evs)
                      | Some h \<Rightarrow>
                          if length h > 0
                          then (None, s1\<lparr>messages := formatted_history h\<rparr>, evs)
                          else (None, s1\<lparr>messages := [welcome_message (selectedProject s) clock]\<rparr>,
                                evs))))"

definition loadChatHistory ::
  "jsstring option \<Rightarrow> clock \<Rightarrow> history_json io \<Rightarrow> assistant_state
     \<Rightarrow> assistant_state \<times> event list" where
  "loadChatHistory env_url clock io s =
     (case loadChatHistory_try env_url clock io s of
        (None, s1, evs) \<Rightarrow> (s1\<lparr>chat_loading := False\<rparr>, evs)
      | (Some err, s1, evs) \<Rightarrow>
          (s1\<lparr>chat_error := Some (js ''Failed to load chat history''),
              messages := [fallback_message clock],
              chat_loading := False\<rparr>, evs))"

text \<open>
  The project selector and the effect that depends on \<open>selectedProject\<close>: the selector
  stores the project found for the chosen id (none for ``General Chat''), and React runs
  the effect, \<open>loadChatHistory()\<close>, after a render in which \<open>selectedProject\<close> is another
  value than before.
\<close>

definition switchProject ::
  "jsstring option \<Rightarrow> clock \<Rightarrow> history_json io \<Rightarrow> project list \<Rightarrow> jsstring
     \<Rightarrow> assistant_state \<Rightarrow> assistant_state \<times> event list" where
  "switchProject env_url clock io availableProjects v s =
     (let project = find (\<lambda>p. teamId p = v) availableProjects;
          s' = s\<lparr>selectedProject := project\<rparr>
      in if selectedProject s' \<noteq> selectedProject s
         then loadChatHistory env_url clock io s'
         else (s', []))"

text \<open>
  \<open>handleSendMessage\<close>.  The function is created anew by every render, and the
  \<open>inputMessage\<close>, \<open>isTyping\<close> and \<open>selectedProject\<close> it reads are the constants of that
  render; what it sets goes to the current state (\<open>setMessages\<close> appends to the list as
  it is then).  So the handler takes two states: \<open>render\<close>, the one its render showed, and
  the current one.  Up to its first \<open>await\<close> it runs without interruption: the guard, the
  user's turn, the flags.  What it keeps for the rest of the call is the message and
  \<open>selectedProject?.teamId\<close>.
\<close>

definition userMessage :: "clock \<Rightarrow> jsstring \<Rightarrow> chat_message" where
  "userMessage clock messageToSend =
     \<lparr> msg_id = clock 0, msg_role = js ''user'', content = messageToSend,
       msg_timestamp = ISOString (clock 1), sources = None, isError = False \<rparr>"

definition handleSendMessage_start ::
  "jsstring option \<Rightarrow> clock \<Rightarrow> assistant_state \<Rightarrow> assistant_state
     \<Rightarrow> assistant_state \<times> (jsstring \<times> jsstring option) option" where
  "handleSendMessage_start customMessage clock render s =
     (let messageToSend = or_else customMessage (trim (inputMessage render)) in
      if messageToSend = [] \<or> isTyping render then (s, None)
      else (s\<lparr>messages := messages s @ [userMessage clock messageToSend],
               inputMessage := [], isTyping := True, chat_error := None\<rparr>,
            Some (messageToSend, projectId_of (selectedProject render))))"

definition chat_request ::
  "jsstring option \<Rightarrow> jsstring option \<Rightarrow> jsstring \<Rightarrow> jsstring option \<Rightarrow> request" where
  "chat_request env_url token messageToSend projectId =
     \<lparr> http_method = js ''POST'', url = API_BASE_URL env_url @ js ''/api/assistant/chat'',
       bearer = token, payload = ChatRequest messageToSend projectId True \<rparr>"

definition assistantMessage :: "clock \<Rightarrow> chat_json \<Rightarrow> chat_message" where
  "assistantMessage clock data =
     \<lparr> msg_id = clock 2 + 1, msg_role = js ''assistant'', content = chat_response data,
       msg_timestamp = ServerTime (chat_timestamp data),
       sources = Some (case chat_sources data of None \<Rightarrow> [] | Some l \<Rightarrow> l),
       isError = False \<rparr>"

definition errorMessage :: "clock \<Rightarrow> js_error \<Rightarrow> chat_message" where
  "errorMessage clock err =
     \<lparr> msg_id = clock 2 + 1, msg_role = js ''assistant'',
       content = js ''Sorry, I encountered an error: '' @ message err @ js ''. Please try again.'',
       msg_timestamp = ISOString (clock 3), sources = None, isError = True \<rparr>"

text \<open>
  After \<open>await getIdToken()\<close>: a rejected call is the error for the \<open>catch\<close> block, and any
  other answer lets the handler issue its one request.
\<close>

definition handleSendMessage_issue ::
  "jsstring option \<Rightarrow> js_error + jsstring option \<Rightarrow> jsstring \<times> jsstring option
     \<Rightarrow> js_error + request" where
  "handleSendMessage_issue env_url token_answer captured =
     (case token_answer of
        Inl e \<Rightarrow> Inl e
      | Inr token \<Rightarrow> Inr (chat_request env_url token (fst captured) (snd captured)))"

text \<open>The \<open>catch\<close> block followed by \<open>finally\<close>.\<close>

definition handleSendMessage_catch :: "clock \<Rightarrow> js_error \<Rightarrow> assistant_state \<Rightarrow> assistant_state" where
  "handleSendMessage_catch clock err s =
     s\<lparr>chat_error := Some (message err),
       messages := messages s @ [errorMessage clock err],
       isTyping := False\<rparr>"

text \<open>After \<open>await fetch(...)\<close>: the rest of the \<open>try\<close> block, \<open>catch\<close> on an error, and \<open>finally\<close>.\<close>

definition handleSendMessage_answer ::
  "clock \<Rightarrow> js_error + chat_json http_response \<Rightarrow> assistant_state \<Rightarrow> assistant_state" where
  "handleSendMessage_answer clock fetch_answer s =
     (case fetch_answer of
        Inl e \<Rightarrow> handleSendMessage_catch clock e s
      | Inr response \<Rightarrow>
          if \<not> ok response then
            (case json_body response of
               Inl e \<Rightarrow> handleSendMessage_catch clock e s
             | Inr errorData \<Rightarrow>
                 handleSendMessage_catch clock
                   (Error (or_else (chat_detail errorData) (js ''Failed to get response''))) s)
          else
            (case json_body response of
               Inl e \<Rightarrow> handleSendMessage_catch clock e s
             | Inr data \<Rightarrow>
                 s\<lparr>messages := messages s @ [assistantMessage clock data], isTyping := False\<rparr>))"

text \<open>The part of a call after its first \<open>await\<close>, with what the environment answers.\<close>

definition handleSendMessage_settle ::
  "jsstring option \<Rightarrow> clock \<Rightarrow> chat_json io \<Rightarrow> jsstring \<times> jsstring option \<Rightarrow> assistant_state
     \<Rightarrow> assistant_state \<times> event list" where
  "handleSendMessage_settle env_url clock io captured s =
     (case handleSendMessage_issue env_url (token_result io) captured of
        Inl e \<Rightarrow> (handleSendMessage_catch clock e s, [GetIdToken])
      | Inr r \<Rightarrow> (handleSendMessage_answer clock (fetch_result io) s, [GetIdToken, Fetch r]))"

text \<open>
  A call of \<open>handleSendMessage\<close> from a render of the current state that nothing else
  interleaves with.
\<close>

definition handleSendMessage ::
  "jsstring option \<Rightarrow> clock \<Rightarrow> chat_json io \<Rightarrow> jsstring option \<Rightarrow> assistant_state
     \<Rightarrow> assistant_state \<times> event list" where
  "handleSendMessage env_url clock io customMessage s =
     (case handleSendMessage_start customMessage clock s s of
        (s1, None) \<Rightarrow> (s1, [])
      | (s1, Some captured) \<Rightarrow> handleSendMessage_settle env_url clock io captured s1)"

definition clear_request :: "jsstring option \<Rightarrow> jsstring option \<Rightarrow> project option \<Rightarrow> request" where
  "clear_request env_url token sel =
     \<lparr> http_method = js ''POST'',
       url = (case projectId_of sel of
                None \<Rightarrow> API_BASE_URL env_url @ js ''/api/assistant/clear-history''
              | Some projectId \<Rightarrow>
                  if projectId = [] then API_BASE_URL env_url @ js ''/api/assistant/clear-history''
                  else API_BASE_URL env_url @ js ''/api/assistant/clear-history?project_id='' @ projectId),
       bearer = token, payload = NoBody \<rparr>"

definition cleared_message :: "clock \<Rightarrow> chat_message" where
  "cleared_message clock =
     \<lparr> msg_id = 1, msg_role = js ''assistant'',
       content = js ''Chat history cleared! How can I help you?'',
       msg_timestamp = ISOString (clock 0), sources = None, isError = False \<rparr>"

text \<open>\<open>clearChatHistory\<close> reads \<open>selectedProject\<close> of its render too.\<close>

definition clearChatHistory ::
  "jsstring option \<Rightarrow> clock \<Rightarrow> bool \<Rightarrow> unit io \<Rightarrow> assistant_state \<Rightarrow> assistant_state
     \<Rightarrow> assistant_state \<times> event list" where
  "clearChatHistory env_url clock confirmed io render s =
     (let ask = [ShowConfirm (js ''Are you sure you want to clear the chat history for this project?'')] in
      if \<not> confirmed then (s, ask)
      else
        case token_result io of
          Inl e \<Rightarrow> (s\<lparr>chat_error := Some (js ''Failed to clear chat history'')\<rparr>, ask @ [GetIdToken])
        | Inr token \<Rightarrow>
            let evs = ask @ [GetIdToken, Fetch (clear_request env_url token (selectedProject render))] in
            case fetch_result io of
              Inl e \<Rightarrow> (s\<lparr>chat_error := Some (js ''Failed to clear chat history'')\<rparr>, evs)
            | Inr response \<Rightarrow>
                if \<not> ok response
                then (s\<lparr>chat_error := Some (js ''Failed to clear chat history'')\<rparr>, evs)
                else (s\<lparr>messages := [cleared_message clock]\<rparr>, evs))"

text \<open>
  The assistant as a transition system, to follow calls that overlap.  \<open>ui\<close> is the current
  state and \<open>shown\<close> the state of the last render, which the handlers called by the user
  read.  React renders after a state change, but not between two handler calls of one
  batch of events, so \<open>Render\<close> is an action of its own.  A call of \<open>handleSendMessage\<close> that
  has passed its guard waits for the token (\<open>awaiting_token\<close>), then issues its request and
  waits for the response (\<open>awaiting_response\<close>); \<open>TokenAnswer k\<close> and \<open>FetchAnswer k\<close> are the
  environment answering the \<open>k\<close>-th of them.  The user's actions are the ways the component
  calls its handlers: the send button and the Enter key call \<open>handleSendMessage()\<close>, a
  prompt button calls \<open>handlePredefinedPrompt\<close> with an entry of \<open>PREDEFINED_PROMPTS\<close>,
  typing sets the input, the selector switches the project (with the render and the
  effect that follow, as \<open>switchProject\<close> has them), and the clear button asks for
  confirmation.  \<open>journal\<close> records what happens, in order: a call passing its guard, every
  effect, the answer to a chat request, and the end of a call (its \<open>finally\<close> block).
\<close>

datatype observation =
    Called "jsstring \<times> jsstring option"
  | Effect event
  | Answered request
  | Settled

record chat_system =
  ui :: assistant_state
  shown :: assistant_state
  awaiting_token :: "(jsstring \<times> jsstring option) list"
  awaiting_response :: "request list"
  journal :: "observation list"

datatype chat_action =
    Render
  | PressSend clock
  | PressPrompt nat clock
  | TypeInput jsstring
  | TokenAnswer nat "js_error + jsstring option" clock
  | FetchAnswer nat "js_error + chat_json http_response" clock
  | SelectProject jsstring "history_json io" clock
  | PressClear bool "unit io" clock

definition call_handleSendMessage :: "jsstring option \<Rightarrow> clock \<Rightarrow> chat_system \<Rightarrow> chat_system" where
  "call_handleSendMessage customMessage clock sys =
     (case handleSendMessage_start customMessage clock (shown sys) (ui sys) of
        (s1, None) \<Rightarrow> sys\<lparr>ui := s1\<rparr>
      | (s1, Some captured) \<Rightarrow>
          sys\<lparr>ui := s1, awaiting_token := awaiting_token sys @ [captured],
              journal := journal sys @ [Called captured, Effect GetIdToken]\<rparr>)"

definition handlePredefinedPrompt :: "jsstring \<Rightarrow> clock \<Rightarrow> chat_system \<Rightarrow> chat_system" where
  "handlePredefinedPrompt prompt clock sys = call_handleSendMessage (Some prompt) clock sys"

definition without :: "nat \<Rightarrow> 'a list \<Rightarrow> 'a list" where
  "without k xs = take k xs @ drop (Suc k) xs"

fun step :: "jsstring option \<Rightarrow> project list \<Rightarrow> chat_action \<Rightarrow> chat_system \<Rightarrow> chat_system" where
  "step env_url avail Render sys = sys\<lparr>shown := ui sys\<rparr>"
| "step env_url avail (PressSend clock) sys = call_handleSendMessage None clock sys"
| "step env_url avail (PressPrompt i clock) sys =
     (if i < length PREDEFINED_PROMPTS
      then handlePredefinedPrompt (PREDEFINED_PROMPTS ! i) clock sys else sys)"
| "step env_url avail (TypeInput v) sys = sys\<lparr>ui := (ui sys)\<lparr>inputMessage := v\<rparr>\<rparr>"
| "step env_url avail (TokenAnswer k token_answer clock) sys =
     (if k < length (awaiting_token sys) then
        (case handleSendMessage_issue env_url token_answer (awaiting_token sys ! k) of
           Inl e \<Rightarrow>
             sys\<lparr>ui := handleSendMessage_catch clock e (ui sys),
                 awaiting_token := without k (awaiting_token sys),
                 journal := journal sys @ [Settled]\<rparr>
         | Inr r \<Rightarrow>
             sys\<lparr>awaiting_token := without k (awaiting_token sys),
                 awaiting_response := awaiting_response sys @ [r],
                 journal := journal sys @ [Effect (Fetch r)]\<rparr>)
      else sys)"
| "step env_url avail (FetchAnswer k fetch_answer clock) sys =
     (if k < length (awaiting_response sys) then
        sys\<lparr>ui := handleSendMessage_answer clock fetch_answer (ui sys),
            awaiting_response := without k (awaiting_response sys),
            journal := journal sys @ [Answered (awaiting_response sys ! k), Settled]\<rparr>
      else sys)"
| "step env_url avail (SelectProject v io clock) sys =
     sys\<lparr>ui := fst (switchProject env_url clock io avail v (ui sys)),
         shown := fst (switchProject env_url clock io avail v (ui sys)),
         journal := journal sys @ map Effect (snd (switchProject env_url clock io avail v (ui sys)))\<rparr>"
| "step env_url avail (PressClear confirmed io clock) sys =
     sys\<lparr>ui := fst (clearChatHistory env_url clock confirmed io (shown sys) (ui sys)),
         journal := journal sys @
           map Effect (snd (clearChatHistory env_url clock confirmed io (shown sys) (ui sys)))\<rparr>"

fun run :: "jsstring option \<Rightarrow> project list \<Rightarrow> chat_action list \<Rightarrow> chat_system \<Rightarrow> chat_system" where
  "run env_url avail [] sys = sys"
| "run env_url avail (a # as) sys = run env_url avail as (step env_url avail a sys)"

text \<open>
  The component when it is mounted: the initial values of its \<open>useState\<close> calls, shown by
  the first render.
\<close>

definition initial_state :: assistant_state where
  "initial_state =
     \<lparr> messages = [], inputMessage = [], isTyping = False, selectedProject = None,
       chat_loading = True, chat_error = None \<rparr>"

definition initial_system :: chat_system where
  "initial_system =
     \<lparr> ui = initial_state, shown = initial_state, awaiting_token = [], awaiting_response = [],
       journal = [] \<rparr>"

text \<open>
  What a journal says: the chat requests that are open (issued by a \<open>fetch\<close> and not
  answered yet), and the calls that have passed their guard and not ended yet.
\<close>

definition is_chat_fetch :: "observation \<Rightarrow> bool" where
  "is_chat_fetch ob =
     (case ob of
        Effect (Fetch r) \<Rightarrow> (case payload r of ChatRequest m p u \<Rightarrow> True | _ \<Rightarrow> False)
      | _ \<Rightarrow> False)"

definition is_answer :: "observation \<Rightarrow> bool" where
  "is_answer ob = (case ob of Answered r \<Rightarrow> True | _ \<Rightarrow> False)"

definition is_call :: "observation \<Rightarrow> bool" where
  "is_call ob = (case ob of Called c \<Rightarrow> True | _ \<Rightarrow> False)"

definition open_chat_requests :: "observation list \<Rightarrow> int" where
  "open_chat_requests j = int (length (filter is_chat_fetch j)) - int (length (filter is_answer j))"

definition is_settled :: "observation \<Rightarrow> bool" where
  "is_settled ob = (case ob of Settled \<Rightarrow> True | _ \<Rightarrow> False)"

definition unsettled_calls :: "observation list \<Rightarrow> int" where
  "unsettled_calls j = int (length (filter is_call j)) - int (length (filter is_settled j))"

text \<open>
  A run in which every call of \<open>handleSendMessage\<close> comes directly after a render, so that
  the handler reads the current state; \<open>fresh\<close> tells whether the action before was one.
\<close>

fun is_send :: "chat_action \<Rightarrow> bool" where
  "is_send (PressSend clock) = True"
| "is_send (PressPrompt i clock) = True"
| "is_send a = False"

fun is_render :: "chat_action \<Rightarrow> bool" where
  "is_render Render = True"
| "is_render a = False"

fun sends_follow_render :: "bool \<Rightarrow> chat_action list \<Rightarrow> bool" where
  "sends_follow_render fresh [] = True"
| "sends_follow_render fresh (a # as) =
     ((if is_send a then fresh else True) \<and> sends_follow_render (is_render a) as)"

section \<open>The conditions the properties speak of\<close>

text \<open>
  The project-list fetch has failed: no token (a rejected or empty one), a rejected
  \<open>fetch\<close>, or a response whose status is neither a success nor 404.
\<close>

definition list_fetch_failed :: "(project list option) io \<Rightarrow> bool" where
  "list_fetch_failed io =
     (case token_result io of
        Inl e \<Rightarrow> True
      | Inr token \<Rightarrow>
          \<not> truthy token \<or>
          (case fetch_result io of
             Inl e \<Rightarrow> True
           | Inr response \<Rightarrow> \<not> ok response \<and> status response \<noteq> 404))"

text \<open>The POST of an invite action has failed: something was thrown, or the response is not ok.\<close>

definition post_failed :: "unit io \<Rightarrow> bool" where
  "post_failed io =
     (case token_result io of
        Inl e \<Rightarrow> True
      | Inr token \<Rightarrow>
          (case fetch_result io of Inl e \<Rightarrow> True | Inr response \<Rightarrow> \<not> ok response))"

text \<open>What React shows of the value \<open>formatMessageText\<close> returns: nothing for a \<open>null\<close>.\<close>

definition rendered :: "element option list option \<Rightarrow> element list" where
  "rendered r = (case r of None \<Rightarrow> [] | Some els \<Rightarrow> List.map_filter (\<lambda>e. e) els)"



text \<open>The events of a run that are requests.\<close>

definition requests_of :: "event list \<Rightarrow> request list" where
  "requests_of evs = concat (map (\<lambda>ev. case ev of Fetch r \<Rightarrow> [r] | _ \<Rightarrow> []) evs)"


text \<open>
  The history load has failed: the token call or the fetch is rejected, the response is
  not ok, or its body does not parse.
\<close>

definition history_load_failed :: "history_json io \<Rightarrow> bool" where
  "history_load_failed io =
     (case token_result io of
        Inl e \<Rightarrow> True
      | Inr token \<Rightarrow>
          (case fetch_result io of
             Inl e \<Rightarrow> True
           | Inr response \<Rightarrow>
               if ok response then (case json_body response of Inl e \<Rightarrow> True | Inr data \<Rightarrow> False)
               else True))"

text \<open>
  What holds of the assistant between the actions of any run: the journal agrees with the
  calls that wait, and no call has issued more than one chat request.
\<close>

definition journal_agrees :: "chat_system \<Rightarrow> bool" where
  "journal_agrees sys \<longleftrightarrow>
     open_chat_requests (journal sys) = int (length (awaiting_response sys)) \<and>
     unsettled_calls (journal sys)
       = int (length (awaiting_token sys)) + int (length (awaiting_response sys)) \<and>
     int (length (filter is_chat_fetch (journal sys))) + int (length (awaiting_token sys))
       \<le> int (length (filter is_call (journal sys)))"

text \<open>
  What holds in a run whose calls of \<open>handleSendMessage\<close> follow a render: at most one call
  is under way, the typing flag is set exactly while one is, and after a render the flag
  shown is the current one.
\<close>

definition one_call :: "bool \<Rightarrow> chat_system \<Rightarrow> bool" where
  "one_call fresh sys \<longleftrightarrow>
     length (awaiting_token sys) + length (awaiting_response sys) \<le> 1 \<and>
     isTyping (ui sys) = (awaiting_token sys \<noteq> [] \<or> awaiting_response sys \<noteq> []) \<and>
     (if fresh then isTyping (shown sys) = isTyping (ui sys) else True)"

section \<open>Concrete runs\<close>

definition user0 :: auth_user where
  "user0 = \<lparr> uid = js ''u1'', auth_email = None, displayName = None \<rparr>"

definition state0 :: sidebar_state where
  "state0 = \<lparr> projects = [], loading = True, error = None, offlineMode = False,
      showNotifications = False, showAddMemberModal = False, selectedTeamId = None \<rparr>"

definition props0 :: sidebar_props where
  "props0 = \<lparr> props_selectedProject = None, has_onProjectsLoaded = True \<rparr>"

definition midnight :: clock where
  "midnight n = 0"

definition server_error_io :: "(project list option) io" where
  "server_error_io =
     \<lparr> token_result = Inr (Some (js ''tok'')),
       fetch_result = Inr \<lparr> status = 500, text_body = Inr (js ''boom''),
                            json_body = Inl (Error []) \<rparr> \<rparr>"

definition unreadable_404 :: "(project list option) http_response" where
  "unreadable_404 =
     \<lparr> status = 404, text_body = Inl (Error (js ''network error'')),
       json_body = Inl (Error (js ''network error'')) \<rparr>"

definition not_found_unreadable_io :: "(project list option) io" where
  "not_found_unreadable_io =
     \<lparr> token_result = Inr (Some (js ''tok'')), fetch_result = Inr unreadable_404 \<rparr>"

definition readable_404 :: "(project list option) http_response" where
  "readable_404 =
     \<lparr> status = 404, text_body = Inr (js ''Not Found''), json_body = Inl (Error []) \<rparr>"

definition not_found_io :: "(project list option) io" where
  "not_found_io = \<lparr> token_result = Inr (Some (js ''tok'')), fetch_result = Inr readable_404 \<rparr>"

definition no_content :: "unit http_response" where
  "no_content = \<lparr> status = 204, text_body = Inr [], json_body = Inr () \<rparr>"

definition done_io :: "unit io" where
  "done_io = \<lparr> token_result = Inr (Some (js ''tok'')), fetch_result = Inr no_content \<rparr>"

definition refused_io :: "unit io" where
  "refused_io =
     \<lparr> token_result = Inr (Some (js ''tok'')),
       fetch_result = Inr \<lparr> status = 403, text_body = Inr [], json_body = Inr () \<rparr> \<rparr>"

definition project_p1 :: project where
  "project_p1 =
     \<lparr> teamId = js ''p1'', teamName = js ''Alpha'', description = [], members = [],
       created_at = NoTime, last_message_at = NoTime \<rparr>"


definition invites0 :: "nat invite_state" where
  "invites0 = \<lparr> invites = [1, 2], invites_loading = False \<rparr>"

definition invites_io :: "(nat list) io" where
  "invites_io =
     \<lparr> token_result = Inr (Some (js ''tok'')),
       fetch_result = Inr \<lparr> status = 200, text_body = Inr [], json_body = Inr [2] \<rparr> \<rparr>"

definition blank_form :: modal_state where
  "blank_form =
     \<lparr> formData = \<lparr> form_teamName = js ''   '', form_description = js ''d'', memberEmails = [] \<rparr>,
       modal_loading = False, modal_error = None \<rparr>"

definition filled_form :: modal_state where
  "filled_form =
     \<lparr> formData = \<lparr> form_teamName = js '' Apollo '', form_description = js '' moon '',
                     memberEmails = js ''a@x.io, b@x.io'' \<rparr>,
       modal_loading = False, modal_error = None \<rparr>"


definition rejected_io :: "created_json io" where
  "rejected_io =
     \<lparr> token_result = Inr (Some (js ''tok'')),
       fetch_result = Inr \<lparr> status = 400, text_body = Inr [],
                            json_body = Inr \<lparr> detail = Some (js ''Team name taken''),
                                                created = project_p1 \<rparr> \<rparr> \<rparr>"

definition summary_text :: jsstring where
  "summary_text =
     js ''**Summary:**'' @ [10] @ js ''1. Point one'' @ [10] @ js ''- Point two'' @ [10] @
     js ''Plain text''"

definition chat0 :: assistant_state where
  "chat0 =
     \<lparr> messages = [], inputMessage = js ''  hi  '', isTyping = False, selectedProject = None,
       chat_loading = False, chat_error = None \<rparr>"

definition history_io :: "history_entry list option \<Rightarrow> history_json io" where
  "history_io h =
     \<lparr> token_result = Inr (Some (js ''tok'')),
       fetch_result = Inr \<lparr> status = 200, text_body = Inr [],
                            json_body = Inr \<lparr> history = h \<rparr> \<rparr> \<rparr>"

definition entry0 :: history_entry where
  "entry0 = \<lparr> entry_role = js ''user'', entry_content = js ''hello'', entry_timestamp = js ''t0'' \<rparr>"

definition answer_io :: "chat_json io" where
  "answer_io =
     \<lparr> token_result = Inr (Some (js ''tok'')),
       fetch_result = Inr \<lparr> status = 200, text_body = Inr [],
                            json_body = Inr \<lparr> chat_detail = None, chat_response = js ''ok'',
                                                chat_timestamp = js ''t1'', chat_sources = None \<rparr> \<rparr> \<rparr>"


definition typing0 :: assistant_state where
  "typing0 = chat0\<lparr>isTyping := True\<rparr>"

definition blank0 :: assistant_state where
  "blank0 = chat0\<lparr>inputMessage := js ''  ''\<rparr>"

definition shown0 :: assistant_state where
  "shown0 = chat0\<lparr>messages := [fallback_message midnight]\<rparr>"

definition selected0 :: assistant_state where
  "selected0 = shown0\<lparr>selectedProject := Some project_p1\<rparr>"

definition failed_history_io :: "history_json io" where
  "failed_history_io =
     \<lparr> token_result = Inr (Some (js ''tok'')), fetch_result = Inl (Error (js ''Failed to fetch'')) \<rparr>"

text \<open>Two prompt buttons pressed with no render between, then both token calls answered.\<close>

definition two_presses :: "chat_action list" where
  "two_presses =
     [PressPrompt 0 midnight, PressPrompt 1 midnight,
      TokenAnswer 0 (Inr (Some (js ''tok''))) midnight,
      TokenAnswer 0 (Inr (Some (js ''tok''))) midnight]"

text \<open>The same with a render after each action: the second press finds the flag set.\<close>

definition two_presses_rendered :: "chat_action list" where
  "two_presses_rendered =
     [Render, PressPrompt 0 midnight, Render, PressPrompt 1 midnight,
      TokenAnswer 0 (Inr (Some (js ''tok''))) midnight,
      TokenAnswer 0 (Inr (Some (js ''tok''))) midnight]"

section \<open>Properties\<close>

subsection \<open>Strings\<close>

lemma trim_empty_iff: "trim s = [] \<longleftrightarrow> (\<forall>c \<in> set s. isWhiteSpace c)"
proof -
  have "trim s = [] \<longleftrightarrow> (\<forall>c \<in> set (dropWhile isWhiteSpace s). isWhiteSpace c)"
    by (simp add: trim_def dropWhile_eq_Nil_conv)
  also have "\<dots> \<longleftrightarrow> dropWhile isWhiteSpace s = []"
  proof
    assume a: "\<forall>c \<in> set (dropWhile isWhiteSpace s). isWhiteSpace c"
    show "dropWhile isWhiteSpace s = []"
    proof (rule ccontr)
      assume ne: "dropWhile isWhiteSpace s \<noteq> []"
      then have "\<not> isWhiteSpace (hd (dropWhile isWhiteSpace s))" by (rule hd_dropWhile)
      moreover have "hd (dropWhile isWhiteSpace s) \<in> set (dropWhile isWhiteSpace s)"
        using ne by simp
      ultimately show False using a by blast
    qed
  next
    assume e: "dropWhile isWhiteSpace s = []"
    show "\<forall>c \<in> set (dropWhile isWhiteSpace s). isWhiteSpace c"
      unfolding e by simp
  qed
  also have "\<dots> \<longleftrightarrow> (\<forall>c \<in> set s. isWhiteSpace c)" by (rule dropWhile_eq_Nil_conv)
  finally show ?thesis .
qed

lemma trim_trim_nonempty:
  assumes "trim s \<noteq> []"
  shows "trim (trim s) \<noteq> []"
proof -
  let ?d = "dropWhile isWhiteSpace (rev (dropWhile isWhiteSpace s))"
  have ne: "?d \<noteq> []" using assms by (simp add: trim_def)
  then have "\<not> isWhiteSpace (hd ?d)" by (rule hd_dropWhile)
  moreover have "hd ?d \<in> set (trim s)" using ne by (simp add: trim_def)
  ultimately show ?thesis using trim_empty_iff by blast
qed

subsection \<open>ProjectSidebar: the project list\<close>

lemma fetchProjects_try_failed:
  assumes "list_fetch_failed io"
  shows "\<exists>err s1 evs. fetchProjects_try env_url props io s = (Some err, s1, evs)"
  using assms
  by (auto simp: list_fetch_failed_def fetchProjects_try_def Let_def split: sum.splits)

lemma fetchProjects_thrown:
  assumes "fetchProjects_try env_url props io s = (Some err, s1, evs)"
  shows "offlineMode (fst (fetchProjects env_url user clock props io s))"
    and "projects (fst (fetchProjects env_url user clock props io s)) = getMockProjects user clock"
  using assms by (simp_all add: fetchProjects_def Let_def)

lemma mock_names:
  "map teamName (getMockProjects user clock) = [js ''Sample Project'', js ''Development Team'']"
  by (simp add: getMockProjects_def)

lemma mock_self_member: "\<forall>p \<in> set (getMockProjects user clock). mock_self user \<in> set (members p)"
  by (simp add: getMockProjects_def)

lemma mock_self_signed_in:
  "uid u \<noteq> [] \<Longrightarrow> user_id (mock_self (Some u)) = uid u \<and> role (mock_self (Some u)) = js ''admin''"
  by (simp add: mock_self_def or_else_def)

text \<open>
  C1.  When the project-list fetch fails in any way but a 404 (no token, a rejected
  fetch, or a failure status other than 404, whatever reading its body gives),
  \<open>fetchProjects\<close> ends in offline mode and the projects are exactly the two demo projects
  of \<open>getMockProjects\<close>, named ``Sample Project'' and ``Development Team''; and when a user
  is signed in, each of them has a member with that user's uid and the role ``admin''.
\<close>

theorem fetchProjects_failure_offline:
  assumes "list_fetch_failed io"
  shows "offlineMode (fst (fetchProjects env_url user clock props io s)) \<and>
         projects (fst (fetchProjects env_url user clock props io s)) = getMockProjects user clock \<and>
         map teamName (projects (fst (fetchProjects env_url user clock props io s)))
           = [js ''Sample Project'', js ''Development Team''] \<and>
         (\<forall>u. user = Some u \<longrightarrow> uid u \<noteq> [] \<longrightarrow>
            (\<forall>p \<in> set (projects (fst (fetchProjects env_url user clock props io s))).
               \<exists>m \<in> set (members p). user_id m = uid u \<and> role m = js ''admin''))"
proof -
  obtain err s1 evs where t: "fetchProjects_try env_url props io s = (Some err, s1, evs)"
    using fetchProjects_try_failed [OF assms] by blast
  have off: "offlineMode (fst (fetchProjects env_url user clock props io s))"
    and ps: "projects (fst (fetchProjects env_url user clock props io s)) = getMockProjects user clock"
    using fetchProjects_thrown [OF t] by simp_all
  have adm: "\<forall>u. user = Some u \<longrightarrow> uid u \<noteq> [] \<longrightarrow>
            (\<forall>p \<in> set (getMockProjects user clock).
               \<exists>m \<in> set (members p). user_id m = uid u \<and> role m = js ''admin'')"
    using mock_self_member mock_self_signed_in by blast
  show ?thesis
    unfolding ps using off adm mock_names by blast
qed

theorem fetchProjects_failure_offline_witness:
  "list_fetch_failed server_error_io \<and>
   offlineMode (fst (fetchProjects None (Some user0) midnight props0 server_error_io state0)) \<and>
   map teamName (projects (fst (fetchProjects None (Some user0) midnight props0 server_error_io state0)))
     = [js ''Sample Project'', js ''Development Team''] \<and>
   map (\<lambda>p. user_id (hd (members p)))
     (projects (fst (fetchProjects None (Some user0) midnight props0 server_error_io state0)))
     = [js ''u1'', js ''u1''] \<and>
   map (\<lambda>p. role (hd (members p)))
     (projects (fst (fetchProjects None (Some user0) midnight props0 server_error_io state0)))
     = [js ''admin'', js ''admin'']"
proof -
  have h: "list_fetch_failed server_error_io"
    by (simp add: list_fetch_failed_def server_error_io_def truthy_def ok_def js_def)
  from fetchProjects_failure_offline [OF h, of None "Some user0" midnight props0 state0]
  show ?thesis using h
    by (simp add: getMockProjects_def mock_self_def or_else_def user0_def js_def)
qed

text \<open>
  C2, as the claim states it, fails: a response with status 404 whose body cannot be read
  (\<open>response.text()\<close> rejects, and it is awaited before the status is looked at) ends in
  the \<open>catch\<close> block, so in offline mode with the demo projects and an error message.
\<close>

theorem fetchProjects_404_counterexample:
  "fetch_result not_found_unreadable_io = Inr unreadable_404 \<and> status unreadable_404 = 404 \<and>
   offlineMode (fst (fetchProjects None (Some user0) midnight props0 not_found_unreadable_io state0)) \<and>
   projects (fst (fetchProjects None (Some user0) midnight props0 not_found_unreadable_io state0)) \<noteq> [] \<and>
   error (fst (fetchProjects None (Some user0) midnight props0 not_found_unreadable_io state0))
     = Some (js ''network error'')"
  by (simp add: fetchProjects_def fetchProjects_try_def not_found_unreadable_io_def unreadable_404_def
      truthy_def ok_def Let_def getMockProjects_def or_else_def js_def)

text \<open>
  C2, amended.  If the project-list fetch returns status 404 and the body of that response
  is read, \<open>fetchProjects\<close> ends with an empty project list, not in offline mode, with no
  error message and not loading; the only effects are the token call and the one fetch.
\<close>

theorem fetchProjects_404_empty:
  assumes "token_result io = Inr token" and "truthy token"
    and "fetch_result io = Inr response" and "status response = 404"
    and "text_body response = Inr errorText"
  shows "projects (fst (fetchProjects env_url user clock props io s)) = [] \<and>
         \<not> offlineMode (fst (fetchProjects env_url user clock props io s)) \<and>
         error (fst (fetchProjects env_url user clock props io s)) = None \<and>
         \<not> loading (fst (fetchProjects env_url user clock props io s)) \<and>
         snd (fetchProjects env_url user clock props io s)
           = [GetIdToken, Fetch (teams_request env_url token)]"
  using assms
  by (simp add: fetchProjects_def fetchProjects_try_def ok_def Let_def)

theorem fetchProjects_404_empty_witness:
  "token_result not_found_io = Inr (Some (js ''tok'')) \<and> truthy (Some (js ''tok'')) \<and>
   fetch_result not_found_io = Inr readable_404 \<and> status readable_404 = 404 \<and>
   text_body readable_404 = Inr (js ''Not Found'') \<and>
   projects (fst (fetchProjects None (Some user0) midnight props0 not_found_io state0)) = [] \<and>
   \<not> offlineMode (fst (fetchProjects None (Some user0) midnight props0 not_found_io state0)) \<and>
   error (fst (fetchProjects None (Some user0) midnight props0 not_found_io state0)) = None"
  using fetchProjects_404_empty [of not_found_io "Some (js ''tok'')" readable_404
      "js ''Not Found''" None "Some user0" midnight props0 state0]
  by (simp add: not_found_io_def readable_404_def truthy_def js_def)

subsection \<open>ProjectSidebar: deleting a project\<close>



subsection \<open>InviteNotifications\<close>

text \<open>
  C4.  When the POST of \<open>handleInvite\<close> succeeds, the invite list is refetched; with the
  action ``accept'' the parent's callback \<open>onInviteHandled\<close>, when the parent has passed
  one, is called exactly once, and with the action ``reject'' it is not called.
\<close>

theorem handleInvite_accept_refreshes:
  assumes "token_result io = Inr token" and "fetch_result io = Inr response" and "ok response"
  shows "(action = js ''accept'' \<longrightarrow> has_onInviteHandled \<longrightarrow>
            count_list (snd (handleInvite env_url has_onInviteHandled inviteId action io refetch s))
              OnInviteHandled = 1) \<and>
         (action = js ''reject'' \<longrightarrow>
            OnInviteHandled
              \<notin> set (snd (handleInvite env_url has_onInviteHandled inviteId action io refetch s))) \<and>
         CallFetchInvites
           \<in> set (snd (handleInvite env_url has_onInviteHandled inviteId action io refetch s)) \<and>
         fst (handleInvite env_url has_onInviteHandled inviteId action io refetch s)
           = fst (fetchInvites env_url refetch s)"
  using assms by (simp add: handleInvite_def js_def)

theorem handleInvite_accept_refreshes_witness:
  "token_result done_io = Inr (Some (js ''tok'')) \<and> fetch_result done_io = Inr no_content \<and>
   ok no_content \<and>
   count_list (snd (handleInvite None True (js ''i7'') (js ''accept'') done_io invites_io invites0))
     OnInviteHandled = 1 \<and>
   OnInviteHandled
     \<notin> set (snd (handleInvite None True (js ''i7'') (js ''reject'') done_io invites_io invites0)) \<and>
   CallFetchInvites
     \<in> set (snd (handleInvite None True (js ''i7'') (js ''reject'') done_io invites_io invites0)) \<and>
   invites (fst (handleInvite None True (js ''i7'') (js ''accept'') done_io invites_io invites0)) = [2]"
  using handleInvite_accept_refreshes
    [of done_io "Some (js ''tok'')" no_content "js ''accept''" True None "js ''i7''" invites_io invites0]
    handleInvite_accept_refreshes
    [of done_io "Some (js ''tok'')" no_content "js ''reject''" True None "js ''i7''" invites_io invites0]
  by (simp add: done_io_def no_content_def ok_def fetchInvites_def invites_io_def invites0_def
      truthy_def js_def)

text \<open>
  C9.  When the POST of \<open>handleInvite\<close> fails (the token call or the fetch throws, or the
  response is not ok), the error toast is shown, the state of the component is the one
  before the attempt, \<open>fetchInvites\<close> is not started, and neither the parent's callback
  nor the success toast is called.
\<close>

theorem handleInvite_failure_keeps_state:
  assumes "post_failed io"
  shows "fst (handleInvite env_url has_onInviteHandled inviteId action io refetch s) = s \<and>
         ShowError (js ''Failed to '' @ action @ js '' invite'')
           \<in> set (snd (handleInvite env_url has_onInviteHandled inviteId action io refetch s)) \<and>
         CallFetchInvites
           \<notin> set (snd (handleInvite env_url has_onInviteHandled inviteId action io refetch s)) \<and>
         OnInviteHandled
           \<notin> set (snd (handleInvite env_url has_onInviteHandled inviteId action io refetch s)) \<and>
         (\<forall>m. ShowSuccess m
           \<notin> set (snd (handleInvite env_url has_onInviteHandled inviteId action io refetch s)))"
  using assms by (auto simp: post_failed_def handleInvite_def Let_def split: sum.splits)

theorem handleInvite_failure_keeps_state_witness:
  "post_failed refused_io \<and>
   fst (handleInvite None True (js ''i7'') (js ''accept'') refused_io invites_io invites0) = invites0 \<and>
   ShowError (js ''Failed to accept invite'')
     \<in> set (snd (handleInvite None True (js ''i7'') (js ''accept'') refused_io invites_io invites0)) \<and>
   CallFetchInvites
     \<notin> set (snd (handleInvite None True (js ''i7'') (js ''accept'') refused_io invites_io invites0)) \<and>
   OnInviteHandled
     \<notin> set (snd (handleInvite None True (js ''i7'') (js ''accept'') refused_io invites_io invites0))"
proof -
  have h: "post_failed refused_io"
    by (simp add: post_failed_def refused_io_def ok_def)
  from handleInvite_failure_keeps_state [OF h, of None True "js ''i7''" "js ''accept''" invites_io invites0]
  show ?thesis using h by (simp add: js_def)
qed


subsection \<open>ThinkBuddyAssistant: formatting\<close>

lemma summary_lines:
  "split_on 10 (filter (\<lambda>c. c \<noteq> 42) summary_text)
     = [js ''Summary:'', js ''1. Point one'', js ''- Point two'', js ''Plain text'']"
  by (simp add: summary_text_def js_def split_on_def)

lemma summary_line0: "format_line (i, js ''Summary:'') = None"
  by (simp add: format_line_def js_def trim_def isWhiteSpace_def is_subheading_line_def
      SUBHEADINGS_def canonicalize_def)

lemma summary_line1:
  "format_line (i, js ''1. Point one'') = Some (Para i (js ''font-bold mt-2 mb-1'') (js ''1. Point one''))"
  by (simp add: format_line_def js_def trim_def isWhiteSpace_def is_subheading_line_def
      SUBHEADINGS_def canonicalize_def is_numbered_item_def isDigit_def is_bullet_item_def
      is_short_title_def)

lemma summary_line2:
  "format_line (i, js ''- Point two'') = Some (Para i (js ''font-bold mt-2 mb-1'') (js ''- Point two''))"
  by (simp add: format_line_def js_def trim_def isWhiteSpace_def is_subheading_line_def
      SUBHEADINGS_def canonicalize_def is_numbered_item_def isDigit_def is_bullet_item_def
      is_short_title_def)

lemma summary_line3:
  "format_line (i, js ''Plain text'') = Some (Para i (js ''mb-1'') (js ''Plain text''))"
  by (simp add: format_line_def js_def trim_def isWhiteSpace_def is_subheading_line_def
      SUBHEADINGS_def canonicalize_def is_numbered_item_def isDigit_def is_bullet_item_def
      is_short_title_def)

lemma summary_formatted:
  "formatMessageText (Some summary_text)
     = Some [None,
             Some (Para 1 (js ''font-bold mt-2 mb-1'') (js ''1. Point one'')),
             Some (Para 2 (js ''font-bold mt-2 mb-1'') (js ''- Point two'')),
             Some (Para 3 (js ''mb-1'') (js ''Plain text''))]"
proof -
  have ne: "summary_text \<noteq> []" by (simp add: summary_text_def)
  show ?thesis
    by (simp add: formatMessageText_def ne summary_lines summary_line0 summary_line1
        summary_line2 summary_line3 numeral_2_eq_2 numeral_3_eq_3)
qed

text \<open>
  C5.  For the text \<open>**Summary:**\n1. Point one\n- Point two\nPlain text\<close>,
  \<open>formatMessageText\<close> returns \<open>null\<close> for the line ``Summary:'' and one paragraph for each
  of the other three lines, so three elements are rendered, in this order: ``1. Point one''
  and ``- Point two'' with the heading classes (bold), and ``Plain text'' with the plain
  class; no rendered text contains an asterisk.
\<close>

theorem formatMessageText_summary_example:
  "formatMessageText (Some summary_text)
     = Some [None,
             Some (Para 1 (js ''font-bold mt-2 mb-1'') (js ''1. Point one'')),
             Some (Para 2 (js ''font-bold mt-2 mb-1'') (js ''- Point two'')),
             Some (Para 3 (js ''mb-1'') (js ''Plain text''))] \<and>
   rendered (formatMessageText (Some summary_text))
     = [Para 1 (js ''font-bold mt-2 mb-1'') (js ''1. Point one''),
        Para 2 (js ''font-bold mt-2 mb-1'') (js ''- Point two''),
        Para 3 (js ''mb-1'') (js ''Plain text'')] \<and>
   42 \<notin> set (concat (map children (rendered (formatMessageText (Some summary_text)))))"
  by (simp add: summary_formatted rendered_def List.map_filter_simps js_def)

subsection \<open>AddProjectModal\<close>

text \<open>
  C6.  When the project name is empty or consists of white space only, submitting has no
  effect but \<open>preventDefault\<close> (no token call, no request) and sets the error message
  ``Project name is required''; and a run of \<open>handleSubmit\<close> that issues a request is one
  whose trimmed project name is not empty.
\<close>

theorem handleSubmit_requires_name:
  "((\<forall>c \<in> set (form_teamName (formData s)). isWhiteSpace c) \<longrightarrow>
      snd (handleSubmit env_url clock io s) = [PreventDefault] \<and>
      modal_error (fst (handleSubmit env_url clock io s)) = Some (js ''Project name is required'')) \<and>
   ((\<exists>r. Fetch r \<in> set (snd (handleSubmit env_url clock io s))) \<longrightarrow>
      trim (form_teamName (formData s)) \<noteq> [])"
proof (intro conjI impI)
  assume "\<forall>c \<in> set (form_teamName (formData s)). isWhiteSpace c"
  then have "trim (form_teamName (formData s)) = []" by (simp add: trim_empty_iff)
  then show "snd (handleSubmit env_url clock io s) = [PreventDefault]"
    and "modal_error (fst (handleSubmit env_url clock io s)) = Some (js ''Project name is required'')"
    by (simp_all add: handleSubmit_def)
next
  assume "\<exists>r. Fetch r \<in> set (snd (handleSubmit env_url clock io s))"
  then show "trim (form_teamName (formData s)) \<noteq> []"
    by (auto simp: handleSubmit_def)
qed

theorem handleSubmit_requires_name_witness:
  "list_all isWhiteSpace (form_teamName (formData blank_form)) \<and>
   snd (handleSubmit None midnight rejected_io blank_form) = [PreventDefault] \<and>
   modal_error (fst (handleSubmit None midnight rejected_io blank_form))
     = Some (js ''Project name is required'') \<and>
   Fetch (create_request None (Some (js ''tok'')) (formData filled_form))
     \<in> set (snd (handleSubmit None midnight rejected_io filled_form)) \<and>
   trim (form_teamName (formData filled_form)) = js ''Apollo''"
proof -
  have ws: "\<forall>c \<in> set (form_teamName (formData blank_form)). isWhiteSpace c"
    by (simp add: blank_form_def js_def isWhiteSpace_def)
  have f: "Fetch (create_request None (Some (js ''tok'')) (formData filled_form))
     \<in> set (snd (handleSubmit None midnight rejected_io filled_form))"
    by (simp add: handleSubmit_def handleSubmit_try_def filled_form_def rejected_io_def ok_def
        is_network_failure_def or_else_def trim_def isWhiteSpace_def js_def)
  have t: "trim (form_teamName (formData filled_form)) = js ''Apollo''"
    by (simp add: filled_form_def trim_def isWhiteSpace_def js_def)
  from handleSubmit_requires_name [of blank_form None midnight rejected_io]
    handleSubmit_requires_name [of filled_form None midnight rejected_io]
  show ?thesis using ws f t by (simp add: list_all_iff)
qed






subsection \<open>ThinkBuddyAssistant: switching the project\<close>

lemma loadChatHistory_messages:
  "messages (fst (loadChatHistory env_url clock io (s\<lparr>messages := old\<rparr>)))
     = messages (fst (loadChatHistory env_url clock io s))"
  by (simp add: loadChatHistory_def loadChatHistory_try_def Let_def split: sum.splits option.splits)

lemma loadChatHistory_effects:
  assumes "token_result io = Inr token"
  shows "snd (loadChatHistory env_url clock io s)
           = [GetIdToken, Fetch (history_request env_url token (selectedProject s))]"
  using assms
  by (simp add: loadChatHistory_def loadChatHistory_try_def Let_def split: sum.splits option.splits)

lemma loadChatHistory_fetched:
  assumes "token_result io = Inr token" and "fetch_result io = Inr response" and "ok response"
    and "json_body response = Inr data"
  shows "messages (fst (loadChatHistory env_url clock io s))
           = (case history data of
                None \<Rightarrow> [welcome_message (selectedProject s) clock]
              | Some h \<Rightarrow> if h = [] then [welcome_message (selectedProject s) clock]
                          else formatted_history h)"
  using assms
  by (simp add: loadChatHistory_def loadChatHistory_try_def Let_def split: option.splits)

lemma loadChatHistory_failed:
  assumes "history_load_failed io"
  shows "messages (fst (loadChatHistory env_url clock io s)) = [fallback_message clock]"
    and "chat_error (fst (loadChatHistory env_url clock io s)) = Some (js ''Failed to load chat history'')"
  using assms
  by (auto simp: history_load_failed_def loadChatHistory_def loadChatHistory_try_def Let_def
      split: sum.splits if_splits)

lemma map_snd_of_enumerate: "map (\<lambda>x. f (snd x)) (enumerate n xs) = map f xs"
  by (induction xs arbitrary: n) simp_all

lemma map_fst_of_enumerate: "map (\<lambda>x. g (fst x)) (enumerate n xs) = map g [n..<n + length xs]"
proof -
  have "map g (map fst (enumerate n xs)) = map (\<lambda>x. g (fst x)) (enumerate n xs)"
    by (simp only: map_map o_def)
  moreover have "map fst (enumerate n xs) = [n..<n + length xs]"
    by (rule map_fst_enumerate)
  ultimately show ?thesis by (simp only:)
qed

lemma formatted_history_fields:
  "map content (formatted_history h) = map entry_content h"
  "map msg_role (formatted_history h) = map entry_role h"
  "map msg_timestamp (formatted_history h) = map (\<lambda>msg. ServerTime (entry_timestamp msg)) h"
  "map msg_id (formatted_history h) = map int [0..<length h]"
  "map sources (formatted_history h) = replicate (length h) None"
  "map isError (formatted_history h) = replicate (length h) False"
proof -
  show "map content (formatted_history h) = map entry_content h"
    by (simp add: formatted_history_def case_prod_unfold comp_def map_snd_of_enumerate)
  show "map msg_role (formatted_history h) = map entry_role h"
    by (simp add: formatted_history_def case_prod_unfold comp_def map_snd_of_enumerate)
  show "map msg_timestamp (formatted_history h) = map (\<lambda>msg. ServerTime (entry_timestamp msg)) h"
    by (simp add: formatted_history_def case_prod_unfold comp_def
        map_snd_of_enumerate [where f = "\<lambda>msg. ServerTime (entry_timestamp msg)"])
  show "map msg_id (formatted_history h) = map int [0..<length h]"
    using map_fst_of_enumerate [where g = int and n = 0 and xs = h]
    by (simp add: formatted_history_def case_prod_unfold comp_def)
  show "map sources (formatted_history h) = replicate (length h) None"
    by (simp add: formatted_history_def case_prod_unfold comp_def map_replicate_const)
  show "map isError (formatted_history h) = replicate (length h) False"
    by (simp add: formatted_history_def case_prod_unfold comp_def map_replicate_const)
qed

text \<open>
  C7.  When the selector chooses another project than the selected one (or none), the
  effect reloads the history, and the messages afterwards never depend on the messages
  before.  Once the token call has returned, the effects are that call and one request: a
  GET of \<open>/api/assistant/history\<close> with the token, with \<open>?project_id=\<close> and the id of the new
  project when one is selected, and without a parameter when none is.  When that request
  succeeds with a history that is not empty, the messages are its entries in order, each
  with its index as id and its role, content and time stamp; when the history is missing or
  empty, the one message is the assistant's welcome, which names the new project when one
  is selected.  When the load fails, the one message is the assistant's greeting and the
  error is set.
\<close>

theorem switchProject_reloads_history:
  assumes "find (\<lambda>p. teamId p = v) avail \<noteq> selectedProject s"
  shows "selectedProject (fst (switchProject env_url clock io avail v s))
           = find (\<lambda>p. teamId p = v) avail \<and>
         (\<forall>old. messages (fst (switchProject env_url clock io avail v (s\<lparr>messages := old\<rparr>)))
                  = messages (fst (switchProject env_url clock io avail v s))) \<and>
         (\<forall>token. token_result io = Inr token \<longrightarrow>
            (\<forall>p. find (\<lambda>p. teamId p = v) avail = Some p \<longrightarrow> teamId p \<noteq> [] \<longrightarrow>
               snd (switchProject env_url clock io avail v s)
                 = [GetIdToken,
                    Fetch \<lparr> http_method = js ''GET'',
                            url = API_BASE_URL env_url @ js ''/api/assistant/history?project_id='' @ teamId p,
                            bearer = token, payload = NoBody \<rparr>]) \<and>
            (find (\<lambda>p. teamId p = v) avail = None \<longrightarrow>
               snd (switchProject env_url clock io avail v s)
                 = [GetIdToken,
                    Fetch \<lparr> http_method = js ''GET'',
                            url = API_BASE_URL env_url @ js ''/api/assistant/history'',
                            bearer = token, payload = NoBody \<rparr>]) \<and>
            (\<forall>response data.
               fetch_result io = Inr response \<longrightarrow> ok response \<longrightarrow> json_body response = Inr data \<longrightarrow>
               (\<forall>h. history data = Some h \<longrightarrow> h \<noteq> [] \<longrightarrow>
                  length (messages (fst (switchProject env_url clock io avail v s))) = length h \<and>
                  map msg_id (messages (fst (switchProject env_url clock io avail v s)))
                    = map int [0..<length h] \<and>
                  map msg_role (messages (fst (switchProject env_url clock io avail v s)))
                    = map entry_role h \<and>
                  map content (messages (fst (switchProject env_url clock io avail v s)))
                    = map entry_content h \<and>
                  map msg_timestamp (messages (fst (switchProject env_url clock io avail v s)))
                    = map (\<lambda>msg. ServerTime (entry_timestamp msg)) h \<and>
                  map sources (messages (fst (switchProject env_url clock io avail v s)))
                    = replicate (length h) None \<and>
                  map isError (messages (fst (switchProject env_url clock io avail v s)))
                    = replicate (length h) False) \<and>
               (history data = None \<or> history data = Some [] \<longrightarrow>
                  (\<forall>p. find (\<lambda>p. teamId p = v) avail = Some p \<longrightarrow> teamId p \<noteq> [] \<longrightarrow>
                     messages (fst (switchProject env_url clock io avail v s))
                       = [\<lparr> msg_id = 1, msg_role = js ''assistant'',
                            content = js ''Hello! I'' @ [39] @
                              js ''m ThinkBuddy. I can help you with questions about '' @ teamName p @
                              js ''. I have access to all team messages and can provide context-aware assistance!'',
                            msg_timestamp = ISOString (clock 0), sources = None, isError = False \<rparr>]) \<and>
                  (find (\<lambda>p. teamId p = v) avail = None \<longrightarrow>
                     messages (fst (switchProject env_url clock io avail v s))
                       = [\<lparr> msg_id = 1, msg_role = js ''assistant'',
                            content = js ''Hello! I'' @ [39] @
                              js ''m ThinkBuddy, your AI assistant. Select a project to get started with context-aware assistance!'',
                            msg_timestamp = ISOString (clock 0), sources = None, isError = False \<rparr>])))) \<and>
         (history_load_failed io \<longrightarrow>
            messages (fst (switchProject env_url clock io avail v s))
              = [\<lparr> msg_id = 1, msg_role = js ''assistant'',
                   content = js ''Hello! I'' @ [39] @
                     js ''m ThinkBuddy, your AI assistant. How can I help you today?'',
                   msg_timestamp = ISOString (clock 0), sources = None, isError = False \<rparr>] \<and>
            chat_error (fst (switchProject env_url clock io avail v s))
              = Some (js ''Failed to load chat history''))"
proof -
  let ?new = "find (\<lambda>p. teamId p = v) avail"
  let ?R = "switchProject env_url clock io avail v s"
  have sw: "\<And>t. switchProject env_url clock io avail v (s\<lparr>messages := t\<rparr>)
              = loadChatHistory env_url clock io (s\<lparr>messages := t, selectedProject := ?new\<rparr>)"
    using assms by (simp add: switchProject_def Let_def)
  have sw0: "?R = loadChatHistory env_url clock io (s\<lparr>selectedProject := ?new\<rparr>)"
    using assms by (simp add: switchProject_def Let_def)
  have sel: "selectedProject (fst ?R) = ?new"
    unfolding sw0
    by (simp add: loadChatHistory_def loadChatHistory_try_def Let_def split: sum.splits option.splits)
  have disc: "\<forall>old. messages (fst (switchProject env_url clock io avail v (s\<lparr>messages := old\<rparr>)))
                  = messages (fst ?R)"
  proof
    fix old
    have "s\<lparr>messages := old, selectedProject := ?new\<rparr> = (s\<lparr>selectedProject := ?new\<rparr>)\<lparr>messages := old\<rparr>"
      by simp
    then show "messages (fst (switchProject env_url clock io avail v (s\<lparr>messages := old\<rparr>)))
                  = messages (fst ?R)"
      unfolding sw sw0 by (simp only: loadChatHistory_messages)
  qed
  have eff: "\<And>token. token_result io = Inr token \<Longrightarrow>
      snd ?R = [GetIdToken, Fetch (history_request env_url token ?new)]"
    unfolding sw0 by (simp add: loadChatHistory_effects)
  have reqs: "\<And>token p. token_result io = Inr token \<Longrightarrow> ?new = Some p \<Longrightarrow> teamId p \<noteq> [] \<Longrightarrow>
      snd ?R = [GetIdToken,
                Fetch \<lparr> http_method = js ''GET'',
                        url = API_BASE_URL env_url @ js ''/api/assistant/history?project_id='' @ teamId p,
                        bearer = token, payload = NoBody \<rparr>]"
    using eff by (simp add: history_request_def projectId_of_def)
  have reqn: "\<And>token. token_result io = Inr token \<Longrightarrow> ?new = None \<Longrightarrow>
      snd ?R = [GetIdToken,
                Fetch \<lparr> http_method = js ''GET'',
                        url = API_BASE_URL env_url @ js ''/api/assistant/history'',
                        bearer = token, payload = NoBody \<rparr>]"
    using eff by (simp add: history_request_def projectId_of_def)
  have got: "\<And>token response data. token_result io = Inr token \<Longrightarrow> fetch_result io = Inr response \<Longrightarrow>
      ok response \<Longrightarrow> json_body response = Inr data \<Longrightarrow>
      messages (fst ?R)
        = (case history data of
             None \<Rightarrow> [welcome_message ?new clock]
           | Some h \<Rightarrow> if h = [] then [welcome_message ?new clock] else formatted_history h)"
    unfolding sw0 using loadChatHistory_fetched [where s = "s\<lparr>selectedProject := ?new\<rparr>"]
    by (simp split: option.splits)
  have hist: "\<And>token response data h. token_result io = Inr token \<Longrightarrow> fetch_result io = Inr response \<Longrightarrow>
      ok response \<Longrightarrow> json_body response = Inr data \<Longrightarrow> history data = Some h \<Longrightarrow> h \<noteq> [] \<Longrightarrow>
      messages (fst ?R) = formatted_history h"
    using got by simp
  have wel: "\<And>token response data. token_result io = Inr token \<Longrightarrow> fetch_result io = Inr response \<Longrightarrow>
      ok response \<Longrightarrow> json_body response = Inr data \<Longrightarrow>
      history data = None \<or> history data = Some [] \<Longrightarrow>
      messages (fst ?R) = [welcome_message ?new clock]"
    using got by auto
  have wels: "\<And>p. ?new = Some p \<Longrightarrow> teamId p \<noteq> [] \<Longrightarrow>
      welcome_message ?new clock
        = \<lparr> msg_id = 1, msg_role = js ''assistant'',
            content = js ''Hello! I'' @ [39] @
              js ''m ThinkBuddy. I can help you with questions about '' @ teamName p @
              js ''. I have access to all team messages and can provide context-aware assistance!'',
            msg_timestamp = ISOString (clock 0), sources = None, isError = False \<rparr>"
    by (simp add: welcome_message_def projectId_of_def truthy_def)
  have weln: "?new = None \<Longrightarrow>
      welcome_message ?new clock
        = \<lparr> msg_id = 1, msg_role = js ''assistant'',
            content = js ''Hello! I'' @ [39] @
              js ''m ThinkBuddy, your AI assistant. Select a project to get started with context-aware assistance!'',
            msg_timestamp = ISOString (clock 0), sources = None, isError = False \<rparr>"
    by (simp add: welcome_message_def projectId_of_def truthy_def)
  have len: "\<And>h. length (formatted_history h) = length h"
    by (simp add: formatted_history_def)
  have fail: "history_load_failed io \<Longrightarrow>
      messages (fst ?R)
        = [\<lparr> msg_id = 1, msg_role = js ''assistant'',
             content = js ''Hello! I'' @ [39] @
               js ''m ThinkBuddy, your AI assistant. How can I help you today?'',
             msg_timestamp = ISOString (clock 0), sources = None, isError = False \<rparr>] \<and>
      chat_error (fst ?R) = Some (js ''Failed to load chat history'')"
    unfolding sw0 by (simp add: loadChatHistory_failed fallback_message_def)
  show ?thesis
  proof (intro conjI allI impI)
    show "selectedProject (fst ?R) = ?new" by (rule sel)
  next
    fix old
    show "messages (fst (switchProject env_url clock io avail v (s\<lparr>messages := old\<rparr>)))
            = messages (fst ?R)" using disc by blast
  next
    fix token p
    assume "token_result io = Inr token" "?new = Some p" "teamId p \<noteq> []"
    then show "snd ?R = [GetIdToken,
                Fetch \<lparr> http_method = js ''GET'',
                        url = API_BASE_URL env_url @ js ''/api/assistant/history?project_id='' @ teamId p,
                        bearer = token, payload = NoBody \<rparr>]"
      by (rule reqs)
  next
    fix token
    assume "token_result io = Inr token" "?new = None"
    then show "snd ?R = [GetIdToken,
                Fetch \<lparr> http_method = js ''GET'',
                        url = API_BASE_URL env_url @ js ''/api/assistant/history'',
                        bearer = token, payload = NoBody \<rparr>]"
      by (rule reqn)
  next
    fix token response data h
    assume a: "token_result io = Inr token" "fetch_result io = Inr response" "ok response"
      "json_body response = Inr data" "history data = Some h" "h \<noteq> []"
    have m: "messages (fst ?R) = formatted_history h" using a by (rule hist)
    show "length (messages (fst ?R)) = length h" unfolding m by (rule len)
    show "map msg_id (messages (fst ?R)) = map int [0..<length h]"
      unfolding m by (rule formatted_history_fields)
    show "map msg_role (messages (fst ?R)) = map entry_role h"
      unfolding m by (rule formatted_history_fields)
    show "map content (messages (fst ?R)) = map entry_content h"
      unfolding m by (rule formatted_history_fields)
    show "map msg_timestamp (messages (fst ?R)) = map (\<lambda>msg. ServerTime (entry_timestamp msg)) h"
      unfolding m by (rule formatted_history_fields)
    show "map sources (messages (fst ?R)) = replicate (length h) None"
      unfolding m by (rule formatted_history_fields)
    show "map isError (messages (fst ?R)) = replicate (length h) False"
      unfolding m by (rule formatted_history_fields)
  next
    fix token response data p
    assume a: "token_result io = Inr token" "fetch_result io = Inr response" "ok response"
      "json_body response = Inr data" "history data = None \<or> history data = Some []"
      and b: "?new = Some p" "teamId p \<noteq> []"
    show "messages (fst ?R)
            = [\<lparr> msg_id = 1, msg_role = js ''assistant'',
                 content = js ''Hello! I'' @ [39] @
                   js ''m ThinkBuddy. I can help you with questions about '' @ teamName p @
                   js ''. I have access to all team messages and can provide context-aware assistance!'',
                 msg_timestamp = ISOString (clock 0), sources = None, isError = False \<rparr>]"
      using wel [OF a] wels [OF b] by simp
  next
    fix token response data
    assume a: "token_result io = Inr token" "fetch_result io = Inr response" "ok response"
      "json_body response = Inr data" "history data = None \<or> history data = Some []"
      and b: "?new = None"
    show "messages (fst ?R)
            = [\<lparr> msg_id = 1, msg_role = js ''assistant'',
                 content = js ''Hello! I'' @ [39] @
                   js ''m ThinkBuddy, your AI assistant. Select a project to get started with context-aware assistance!'',
                 msg_timestamp = ISOString (clock 0), sources = None, isError = False \<rparr>]"
      using wel [OF a] weln [OF b] by simp
  next
    assume "history_load_failed io"
    then show "messages (fst ?R)
        = [\<lparr> msg_id = 1, msg_role = js ''assistant'',
             content = js ''Hello! I'' @ [39] @
               js ''m ThinkBuddy, your AI assistant. How can I help you today?'',
             msg_timestamp = ISOString (clock 0), sources = None, isError = False \<rparr>]"
      using fail by blast
  next
    assume "history_load_failed io"
    then show "chat_error (fst ?R) = Some (js ''Failed to load chat history'')"
      using fail by blast
  qed
qed

theorem switchProject_reloads_history_witness:
  "find (\<lambda>p. teamId p = js ''p1'') [project_p1] \<noteq> selectedProject shown0 \<and>
   token_result (history_io (Some [])) = Inr (Some (js ''tok'')) \<and>
   selectedProject (fst (switchProject None midnight (history_io (Some [])) [project_p1] (js ''p1'') shown0))
     = Some project_p1 \<and>
   snd (switchProject None midnight (history_io (Some [])) [project_p1] (js ''p1'') shown0)
     = [GetIdToken,
        Fetch \<lparr> http_method = js ''GET'',
                url = js ''http://127.0.0.2:8000/api/assistant/history?project_id=p1'',
                bearer = Some (js ''tok''), payload = NoBody \<rparr>] \<and>
   messages (fst (switchProject None midnight (history_io (Some [])) [project_p1] (js ''p1'') shown0))
     = [\<lparr> msg_id = 1, msg_role = js ''assistant'',
          content = js ''Hello! I'' @ [39] @
            js ''m ThinkBuddy. I can help you with questions about Alpha. I have access to all team messages and can provide context-aware assistance!'',
          msg_timestamp = ISOString 0, sources = None, isError = False \<rparr>] \<and>
   messages (fst (switchProject None midnight (history_io (Some [entry0])) [project_p1] (js ''p1'') shown0))
     = [\<lparr> msg_id = 0, msg_role = js ''user'', content = js ''hello'',
          msg_timestamp = ServerTime (js ''t0''), sources = None, isError = False \<rparr>] \<and>
   find (\<lambda>p. teamId p = []) [project_p1] \<noteq> selectedProject selected0 \<and>
   snd (switchProject None midnight (history_io None) [project_p1] [] selected0)
     = [GetIdToken,
        Fetch \<lparr> http_method = js ''GET'', url = js ''http://127.0.0.2:8000/api/assistant/history'',
                bearer = Some (js ''tok''), payload = NoBody \<rparr>] \<and>
   messages (fst (switchProject None midnight (history_io None) [project_p1] [] selected0))
     = [\<lparr> msg_id = 1, msg_role = js ''assistant'',
          content = js ''Hello! I'' @ [39] @
            js ''m ThinkBuddy, your AI assistant. Select a project to get started with context-aware assistance!'',
          msg_timestamp = ISOString 0, sources = None, isError = False \<rparr>] \<and>
   history_load_failed failed_history_io \<and>
   messages (fst (switchProject None midnight failed_history_io [project_p1] (js ''p1'') shown0))
     = [\<lparr> msg_id = 1, msg_role = js ''assistant'',
          content = js ''Hello! I'' @ [39] @ js ''m ThinkBuddy, your AI assistant. How can I help you today?'',
          msg_timestamp = ISOString 0, sources = None, isError = False \<rparr>]"
proof -
  have f1: "find (\<lambda>p. teamId p = js ''p1'') [project_p1] = Some project_p1"
    by (simp add: project_p1_def)
  have f0: "find (\<lambda>p. teamId p = []) [project_p1] = None"
    by (simp add: project_p1_def js_def)
  have c1: "find (\<lambda>p. teamId p = js ''p1'') [project_p1] \<noteq> selectedProject shown0"
    unfolding f1 by (simp add: shown0_def chat0_def)
  have c0: "find (\<lambda>p. teamId p = []) [project_p1] \<noteq> selectedProject selected0"
    unfolding f0 by (simp add: selected0_def)
  have fl: "history_load_failed failed_history_io"
    by (simp add: history_load_failed_def failed_history_io_def)
  have one: "messages (fst (switchProject None midnight (history_io (Some [entry0])) [project_p1] (js ''p1'') shown0))
     = [\<lparr> msg_id = 0, msg_role = js ''user'', content = js ''hello'',
          msg_timestamp = ServerTime (js ''t0''), sources = None, isError = False \<rparr>]"
    using c1
    by (simp add: switchProject_def loadChatHistory_def loadChatHistory_try_def history_io_def
        ok_def formatted_history_def entry0_def Let_def f1)
  from switchProject_reloads_history [OF c1, of None midnight "history_io (Some [])"]
    switchProject_reloads_history [OF c1, of None midnight "history_io (Some [entry0])"]
    switchProject_reloads_history [OF c0, of None midnight "history_io None"]
    switchProject_reloads_history [OF c1, of None midnight failed_history_io]
  show ?thesis using c1 c0 fl one
    by (simp add: f1 f0 history_io_def ok_def API_BASE_URL_def or_else_def project_p1_def
        midnight_def js_def)
qed

subsection \<open>ThinkBuddyAssistant: sending\<close>

lemma handleSendMessage_start_typing:
  "isTyping render \<Longrightarrow> handleSendMessage_start customMessage clock render s = (s, None)"
  by (simp add: handleSendMessage_start_def)

lemma handleSendMessage_start_blank:
  assumes "\<not> truthy customMessage" and "\<forall>c \<in> set (inputMessage render). isWhiteSpace c"
  shows "handleSendMessage_start customMessage clock render s = (s, None)"
proof -
  have "trim (inputMessage render) = []" using assms(2) by (simp add: trim_empty_iff)
  moreover have "or_else customMessage (trim (inputMessage render)) = trim (inputMessage render)"
    using assms(1) by (simp add: truthy_def or_else_def split: option.splits)
  ultimately show ?thesis by (simp add: handleSendMessage_start_def)
qed

lemma handleSendMessage_start_None:
  assumes "handleSendMessage_start customMessage clock render s = (s', None)"
  shows "s' = s"
  using assms by (auto simp: handleSendMessage_start_def Let_def split: if_splits)

lemma handleSendMessage_start_sends:
  assumes "handleSendMessage_start customMessage clock render s = (s', Some captured)"
  shows "\<not> isTyping render"
    and "fst captured = or_else customMessage (trim (inputMessage render))"
    and "fst captured \<noteq> []"
    and "snd captured = projectId_of (selectedProject render)"
    and "s' = s\<lparr>messages := messages s @
                   [\<lparr> msg_id = clock 0, msg_role = js ''user'', content = fst captured,
                      msg_timestamp = ISOString (clock 1), sources = None, isError = False \<rparr>],
                 inputMessage := [], isTyping := True, chat_error := None\<rparr>"
  using assms
  by (auto simp: handleSendMessage_start_def userMessage_def Let_def split: if_splits)

lemma prompts_not_blank: "\<forall>p \<in> set PREDEFINED_PROMPTS. p \<noteq> [] \<and> trim p \<noteq> []"
  by (simp add: PREDEFINED_PROMPTS_def trim_def isWhiteSpace_def js_def)

lemma isTyping_catch: "\<not> isTyping (handleSendMessage_catch clock e s)"
  by (simp add: handleSendMessage_catch_def)

lemma isTyping_answer: "\<not> isTyping (handleSendMessage_answer clock fetch_answer s)"
  by (simp add: handleSendMessage_answer_def isTyping_catch split: sum.splits)

lemma isTyping_loadChatHistory:
  "isTyping (fst (loadChatHistory env_url clock io s)) = isTyping s"
  by (simp add: loadChatHistory_def loadChatHistory_try_def Let_def split: sum.splits option.splits)

lemma isTyping_switchProject:
  "isTyping (fst (switchProject env_url clock io avail v s)) = isTyping s"
  by (simp add: switchProject_def Let_def isTyping_loadChatHistory)

lemma isTyping_clearChatHistory:
  "isTyping (fst (clearChatHistory env_url clock confirmed io render s)) = isTyping s"
  by (simp add: clearChatHistory_def Let_def split: sum.splits)

lemma effects_loadChatHistory:
  "filter is_chat_fetch (map Effect (snd (loadChatHistory env_url clock io s))) = []"
  by (simp add: loadChatHistory_def loadChatHistory_try_def Let_def is_chat_fetch_def
      history_request_def split: sum.splits option.splits)

lemma effects_switchProject:
  "filter is_chat_fetch (map Effect (snd (switchProject env_url clock io avail v s))) = []"
  by (simp add: switchProject_def Let_def effects_loadChatHistory)

lemma effects_clearChatHistory:
  "filter is_chat_fetch (map Effect (snd (clearChatHistory env_url clock confirmed io render s))) = []"
  by (simp add: clearChatHistory_def Let_def is_chat_fetch_def clear_request_def split: sum.splits)

lemma effects_only:
  "filter is_answer (map Effect evs) = []"
  "filter is_call (map Effect evs) = []"
  "filter is_settled (map Effect evs) = []"
  by (induction evs) (simp_all add: is_answer_def is_call_def is_settled_def)

lemma chat_request_is_chat_fetch:
  "handleSendMessage_issue env_url token_answer captured = Inr r \<Longrightarrow> is_chat_fetch (Effect (Fetch r))"
  by (auto simp: handleSendMessage_issue_def chat_request_def is_chat_fetch_def split: sum.splits)

lemma length_without: "k < length xs \<Longrightarrow> length (without k xs) = length xs - 1"
  by (simp add: without_def)

lemma call_journal_agrees:
  assumes "journal_agrees sys"
  shows "journal_agrees (call_handleSendMessage customMessage clock sys)"
proof (cases "handleSendMessage_start customMessage clock (shown sys) (ui sys)")
  case (Pair s1 r)
  then show ?thesis using assms
    by (cases r)
       (simp_all add: call_handleSendMessage_def journal_agrees_def open_chat_requests_def
          unsettled_calls_def is_chat_fetch_def is_answer_def is_call_def is_settled_def)
qed

lemma step_journal_agrees:
  assumes "journal_agrees sys"
  shows "journal_agrees (step env_url avail a sys)"
proof (cases a)
  case Render
  then show ?thesis using assms by (simp add: journal_agrees_def)
next
  case (PressSend clock)
  then show ?thesis using call_journal_agrees [OF assms] by simp
next
  case (PressPrompt i clock)
  then show ?thesis using call_journal_agrees [OF assms] assms
    by (simp add: handlePredefinedPrompt_def)
next
  case (TypeInput v)
  then show ?thesis using assms by (simp add: journal_agrees_def)
next
  case (TokenAnswer k token_answer clock)
  show ?thesis
  proof (cases "k < length (awaiting_token sys)")
    case False
    then show ?thesis using TokenAnswer assms by simp
  next
    case True
    show ?thesis
    proof (cases "handleSendMessage_issue env_url token_answer (awaiting_token sys ! k)")
      case (Inl e)
      then show ?thesis using TokenAnswer True assms
        by (simp add: journal_agrees_def open_chat_requests_def unsettled_calls_def
            is_chat_fetch_def is_answer_def is_call_def is_settled_def length_without)
    next
      case (Inr r)
      then have "is_chat_fetch (Effect (Fetch r))" by (rule chat_request_is_chat_fetch)
      then show ?thesis using TokenAnswer True Inr assms
        by (simp add: journal_agrees_def open_chat_requests_def unsettled_calls_def
            is_answer_def is_call_def is_settled_def length_without)
    qed
  qed
next
  case (FetchAnswer k fetch_answer clock)
  show ?thesis
  proof (cases "k < length (awaiting_response sys)")
    case False
    then show ?thesis using FetchAnswer assms by simp
  next
    case True
    then show ?thesis using FetchAnswer assms
      by (simp add: journal_agrees_def open_chat_requests_def unsettled_calls_def
          is_chat_fetch_def is_answer_def is_call_def is_settled_def length_without)
  qed
next
  case (SelectProject v io clock)
  then show ?thesis using assms
    by (simp add: journal_agrees_def open_chat_requests_def unsettled_calls_def
        effects_switchProject effects_only)
next
  case (PressClear confirmed io clock)
  then show ?thesis using assms
    by (simp add: journal_agrees_def open_chat_requests_def unsettled_calls_def
        effects_clearChatHistory effects_only)
qed

lemma run_journal_agrees:
  "journal_agrees sys \<Longrightarrow> journal_agrees (run env_url avail acts sys)"
  by (induction acts arbitrary: sys) (simp_all add: step_journal_agrees)

lemma initial_journal_agrees: "journal_agrees initial_system"
  by (simp add: journal_agrees_def initial_system_def open_chat_requests_def unsettled_calls_def)

lemma call_one_call:
  assumes "one_call True sys"
  shows "one_call False (call_handleSendMessage customMessage clock sys)"
proof (cases "handleSendMessage_start customMessage clock (shown sys) (ui sys)")
  case (Pair s1 r)
  show ?thesis
  proof (cases r)
    case None
    then have "s1 = ui sys" using Pair handleSendMessage_start_None by blast
    then show ?thesis using assms Pair None
      by (simp add: call_handleSendMessage_def one_call_def)
  next
    case (Some captured)
    then have st: "handleSendMessage_start customMessage clock (shown sys) (ui sys) = (s1, Some captured)"
      using Pair by simp
    have "\<not> isTyping (shown sys)" using handleSendMessage_start_sends(1) [OF st] .
    moreover have "isTyping (shown sys) = isTyping (ui sys)"
      using assms unfolding one_call_def by (simp only: if_True)
    ultimately have "\<not> isTyping (ui sys)" by blast
    then have nt: "\<not> (awaiting_token sys \<noteq> [] \<or> awaiting_response sys \<noteq> [])"
      using assms unfolding one_call_def by blast
    have e: "awaiting_token sys = []" "awaiting_response sys = []"
      using nt by blast+
    have "isTyping s1" using handleSendMessage_start_sends(5) [OF st] by simp
    then show ?thesis using st e
      by (simp add: call_handleSendMessage_def one_call_def)
  qed
qed

lemma step_one_call:
  assumes "one_call fresh sys" and "is_send a \<Longrightarrow> fresh"
  shows "one_call (is_render a) (step env_url avail a sys)"
proof (cases a)
  case Render
  then show ?thesis using assms(1) by (simp add: one_call_def)
next
  case (PressSend clock)
  then have "fresh" using assms(2) by simp
  then show ?thesis using PressSend call_one_call assms(1) by simp
next
  case (PressPrompt i clock)
  then have f: "fresh" using assms(2) by simp
  show ?thesis
  proof (cases "i < length PREDEFINED_PROMPTS")
    case True
    then show ?thesis using PressPrompt f call_one_call assms(1)
      by (simp add: handlePredefinedPrompt_def)
  next
    case False
    then show ?thesis using PressPrompt assms(1) by (simp add: one_call_def)
  qed
next
  case (TypeInput v)
  then show ?thesis using assms(1) by (simp add: one_call_def)
next
  case (TokenAnswer k token_answer clock)
  show ?thesis
  proof (cases "k < length (awaiting_token sys)")
    case False
    then show ?thesis using TokenAnswer assms(1) by (simp add: one_call_def)
  next
    case True
    have le: "length (awaiting_token sys) + length (awaiting_response sys) \<le> 1"
      using assms(1) by (simp add: one_call_def)
    have l: "length (awaiting_token sys) = 1" "awaiting_response sys = []"
      using le True by (cases "awaiting_response sys"; simp)+
    have w: "without k (awaiting_token sys) = []" using l True by (simp add: without_def)
    have ne: "awaiting_token sys \<noteq> []" using True by auto
    have ty: "isTyping (ui sys)" using assms(1) ne unfolding one_call_def by blast
    show ?thesis
    proof (cases "handleSendMessage_issue env_url token_answer (awaiting_token sys ! k)")
      case (Inl e)
      then show ?thesis using TokenAnswer True l w
        by (simp add: one_call_def isTyping_catch)
    next
      case (Inr r)
      then show ?thesis using TokenAnswer True l w ty
        by (simp add: one_call_def)
    qed
  qed
next
  case (FetchAnswer k fetch_answer clock)
  show ?thesis
  proof (cases "k < length (awaiting_response sys)")
    case False
    then show ?thesis using FetchAnswer assms(1) by (simp add: one_call_def)
  next
    case True
    have le: "length (awaiting_token sys) + length (awaiting_response sys) \<le> 1"
      using assms(1) by (simp add: one_call_def)
    have l: "length (awaiting_response sys) = 1" "awaiting_token sys = []"
      using le True by (cases "awaiting_token sys"; simp)+
    have w: "without k (awaiting_response sys) = []" using l True by (simp add: without_def)
    show ?thesis using FetchAnswer True l w
      by (simp add: one_call_def isTyping_answer)
  qed
next
  case (SelectProject v io clock)
  then show ?thesis using assms(1) by (simp add: one_call_def isTyping_switchProject)
next
  case (PressClear confirmed io clock)
  then show ?thesis using assms(1) by (simp add: one_call_def isTyping_clearChatHistory)
qed

lemma run_one_call:
  "one_call fresh sys \<Longrightarrow> sends_follow_render fresh acts
     \<Longrightarrow> \<exists>fresh'. one_call fresh' (run env_url avail acts sys)"
proof (induction acts arbitrary: fresh sys)
  case Nil
  then show ?case by auto
next
  case (Cons a as)
  have "one_call (is_render a) (step env_url avail a sys)"
    using step_one_call [OF Cons.prems(1)] Cons.prems(2) by (simp split: if_splits)
  moreover have "sends_follow_render (is_render a) as" using Cons.prems(2) by simp
  ultimately show ?case using Cons.IH by simp
qed

lemma initial_one_call: "one_call True initial_system"
  by (simp add: one_call_def initial_system_def initial_state_def)

lemma rendered_run:
  assumes "sends_follow_render True acts"
  shows "0 \<le> open_chat_requests (journal (run env_url avail acts initial_system))"
    and "open_chat_requests (journal (run env_url avail acts initial_system)) \<le> 1"
    and "unsettled_calls (journal (run env_url avail acts initial_system)) \<le> 1"
    and "isTyping (ui (run env_url avail acts initial_system))
           = (unsettled_calls (journal (run env_url avail acts initial_system)) = 1)"
proof -
  let ?sys = "run env_url avail acts initial_system"
  have j: "journal_agrees ?sys" using run_journal_agrees [OF initial_journal_agrees] .
  obtain fresh' where o: "one_call fresh' ?sys"
    using run_one_call [OF initial_one_call assms] by blast
  show "0 \<le> open_chat_requests (journal ?sys)" using j by (simp add: journal_agrees_def)
  show "open_chat_requests (journal ?sys) \<le> 1" using j o
    by (simp add: journal_agrees_def one_call_def)
  show "unsettled_calls (journal ?sys) \<le> 1" using j o
    by (simp add: journal_agrees_def one_call_def)
  show "isTyping (ui ?sys) = (unsettled_calls (journal ?sys) = 1)"
  proof -
    have u: "unsettled_calls (journal ?sys)
        = int (length (awaiting_token ?sys)) + int (length (awaiting_response ?sys))"
      using j by (simp add: journal_agrees_def)
    have le: "length (awaiting_token ?sys) + length (awaiting_response ?sys) \<le> 1"
      and ty: "isTyping (ui ?sys) = (awaiting_token ?sys \<noteq> [] \<or> awaiting_response ?sys \<noteq> [])"
      using o by (simp_all add: one_call_def)
    have "(awaiting_token ?sys \<noteq> [] \<or> awaiting_response ?sys \<noteq> [])
            = (length (awaiting_token ?sys) + length (awaiting_response ?sys) = 1)"
      using le by (cases "awaiting_token ?sys"; cases "awaiting_response ?sys") auto
    then show ?thesis unfolding u ty by auto
  qed
qed

lemma any_run_one_request_per_call:
  "int (length (filter is_chat_fetch (journal (run env_url avail acts initial_system))))
     \<le> int (length (filter is_call (journal (run env_url avail acts initial_system))))"
proof -
  have "journal_agrees (run env_url avail acts initial_system)"
    using run_journal_agrees [OF initial_journal_agrees] .
  then show ?thesis by (simp add: journal_agrees_def)
qed

text \<open>
  C10, as the claim states it, fails in two ways.  The guard reads \<open>isTyping\<close> of the render
  that created the handler: a second call from the same render passes it although the
  first has set the flag, so after two prompt buttons pressed with no render between, two
  user turns are appended and two chat requests are open.  And a custom message is used
  as it is: a call with three spaces as message appends that turn and issues a request.
\<close>

theorem handleSendMessage_guard_counterexample:
  "isTyping (ui (run None [] [PressPrompt 0 midnight] initial_system)) \<and>
   map content (messages (ui (run None [] two_presses initial_system)))
     = [js ''Help me debug an issue'', js ''Suggest best practices''] \<and>
   open_chat_requests (journal (run None [] two_presses initial_system)) = 2 \<and>
   trim (js ''   '') = [] \<and>
   map content (messages (fst (handleSendMessage None midnight answer_io (Some (js ''   '')) chat0)))
     = [js ''   '', js ''ok''] \<and>
   requests_of (snd (handleSendMessage None midnight answer_io (Some (js ''   '')) chat0))
     = [\<lparr> http_method = js ''POST'', url = js ''http://127.0.0.2:8000/api/assistant/chat'',
          bearer = Some (js ''tok''), payload = ChatRequest (js ''   '') None True \<rparr>]"
proof -
  have a: "isTyping (ui (run None [] [PressPrompt 0 midnight] initial_system))"
    by (simp add: initial_system_def initial_state_def call_handleSendMessage_def
        handlePredefinedPrompt_def handleSendMessage_start_def PREDEFINED_PROMPTS_def
        or_else_def Let_def js_def)
  have b: "map content (messages (ui (run None [] two_presses initial_system)))
     = [js ''Help me debug an issue'', js ''Suggest best practices'']"
    by (simp add: two_presses_def initial_system_def initial_state_def call_handleSendMessage_def
        handlePredefinedPrompt_def handleSendMessage_start_def handleSendMessage_issue_def
        PREDEFINED_PROMPTS_def userMessage_def without_def or_else_def Let_def js_def)
  have c: "open_chat_requests (journal (run None [] two_presses initial_system)) = 2"
    by (simp add: two_presses_def initial_system_def initial_state_def call_handleSendMessage_def
        handlePredefinedPrompt_def handleSendMessage_start_def handleSendMessage_issue_def
        PREDEFINED_PROMPTS_def chat_request_def without_def or_else_def open_chat_requests_def
        is_chat_fetch_def is_answer_def Let_def js_def)
  have d: "trim (js ''   '') = []" by (simp add: trim_def isWhiteSpace_def js_def)
  have e: "handleSendMessage None midnight answer_io (Some (js ''   '')) chat0
     = (chat0\<lparr>messages := [userMessage midnight (js ''   ''),
                              assistantMessage midnight
                                \<lparr> chat_detail = None, chat_response = js ''ok'',
                                  chat_timestamp = js ''t1'', chat_sources = None \<rparr>],
               inputMessage := [], isTyping := False, chat_error := None\<rparr>,
        [GetIdToken, Fetch (chat_request None (Some (js ''tok'')) (js ''   '') None)])"
    by (simp add: handleSendMessage_def handleSendMessage_start_def handleSendMessage_settle_def
        handleSendMessage_issue_def handleSendMessage_answer_def answer_io_def chat0_def ok_def
        projectId_of_def or_else_def Let_def js_def)
  show ?thesis
    unfolding e using a b c d
    by (simp add: userMessage_def assistantMessage_def requests_of_def chat_request_def
        API_BASE_URL_def or_else_def js_def)
qed

text \<open>
  C10, amended.  A call of \<open>handleSendMessage\<close> from a render in which the component is
  typing changes nothing and issues nothing, and so does a call without a custom message
  from a render whose input is empty or white space only.  A call that passes the guard
  comes from a render that was not typing; it appends one user turn, empties the input
  and sets the typing flag; the content of the turn is not empty: it is the custom message
  as it was passed, or else the trimmed input, which is not empty after trimming; and once
  the token call returns, its request is a POST of that message to \<open>/api/assistant/chat\<close>.
  Such a call, left alone, has the token call and at most that one request as effects, and
  ends not typing with one more turn after the user's.
  None of the component's own prompts is blank.  In every run no call issues more than one
  chat request.  In every run in which each call of the handler comes directly after a
  render, at most one chat request is open and at most one call is under way at any time,
  and the component is typing exactly while a call is under way.
\<close>

theorem handleSendMessage_guard:
  "(isTyping render \<longrightarrow> handleSendMessage_start customMessage clock render s = (s, None)) \<and>
   (isTyping s \<longrightarrow> handleSendMessage env_url clock io customMessage s = (s, [])) \<and>
   (\<not> truthy customMessage \<longrightarrow> (\<forall>c \<in> set (inputMessage render). isWhiteSpace c) \<longrightarrow>
      handleSendMessage_start customMessage clock render s = (s, None)) \<and>
   (\<not> truthy customMessage \<longrightarrow> (\<forall>c \<in> set (inputMessage s). isWhiteSpace c) \<longrightarrow>
      handleSendMessage env_url clock io customMessage s = (s, [])) \<and>
   (handleSendMessage_start customMessage clock render s = (s', Some captured) \<longrightarrow>
      \<not> isTyping render \<and>
      s' = s\<lparr>messages := messages s @
                  [\<lparr> msg_id = clock 0, msg_role = js ''user'', content = fst captured,
                     msg_timestamp = ISOString (clock 1), sources = None, isError = False \<rparr>],
                inputMessage := [], isTyping := True, chat_error := None\<rparr> \<and>
      fst captured \<noteq> [] \<and>
      (\<not> truthy customMessage \<longrightarrow>
         fst captured = trim (inputMessage render) \<and> trim (fst captured) \<noteq> []) \<and>
      (\<forall>m. customMessage = Some m \<longrightarrow> m \<noteq> [] \<longrightarrow> fst captured = m) \<and>
      (\<forall>token. handleSendMessage_issue env_url (Inr token) captured
         = Inr \<lparr> http_method = js ''POST'', url = API_BASE_URL env_url @ js ''/api/assistant/chat'',
                 bearer = token,
                 payload = ChatRequest (fst captured) (map_option teamId (selectedProject render)) True \<rparr>)) \<and>
   (handleSendMessage_start customMessage clock s s = (s1, Some sent) \<longrightarrow>
      (\<forall>token. token_result io = Inr token \<longrightarrow>
         snd (handleSendMessage env_url clock io customMessage s)
           = [GetIdToken,
              Fetch \<lparr> http_method = js ''POST'',
                      url = API_BASE_URL env_url @ js ''/api/assistant/chat'', bearer = token,
                      payload = ChatRequest (fst sent) (map_option teamId (selectedProject s)) True \<rparr>]) \<and>
      (\<forall>e. token_result io = Inl e \<longrightarrow>
         snd (handleSendMessage env_url clock io customMessage s) = [GetIdToken]) \<and>
      \<not> isTyping (fst (handleSendMessage env_url clock io customMessage s)) \<and>
      length (messages (fst (handleSendMessage env_url clock io customMessage s)))
        = length (messages s) + 2) \<and>
   (\<forall>p \<in> set PREDEFINED_PROMPTS. trim p \<noteq> []) \<and>
   int (length (filter is_chat_fetch (journal (run env_url avail acts initial_system))))
     \<le> int (length (filter is_call (journal (run env_url avail acts initial_system)))) \<and>
   (sends_follow_render True acts \<longrightarrow>
      0 \<le> open_chat_requests (journal (run env_url avail acts initial_system)) \<and>
      open_chat_requests (journal (run env_url avail acts initial_system)) \<le> 1 \<and>
      unsettled_calls (journal (run env_url avail acts initial_system)) \<le> 1 \<and>
      isTyping (ui (run env_url avail acts initial_system))
        = (unsettled_calls (journal (run env_url avail acts initial_system)) = 1))"
proof (intro conjI impI allI)
  assume "isTyping render"
  then show "handleSendMessage_start customMessage clock render s = (s, None)"
    by (rule handleSendMessage_start_typing)
next
  assume "isTyping s"
  then show "handleSendMessage env_url clock io customMessage s = (s, [])"
    by (simp add: handleSendMessage_def handleSendMessage_start_typing)
next
  assume "\<not> truthy customMessage" and "\<forall>c \<in> set (inputMessage render). isWhiteSpace c"
  then show "handleSendMessage_start customMessage clock render s = (s, None)"
    by (rule handleSendMessage_start_blank)
next
  assume "\<not> truthy customMessage" and "\<forall>c \<in> set (inputMessage s). isWhiteSpace c"
  then show "handleSendMessage env_url clock io customMessage s = (s, [])"
    by (simp add: handleSendMessage_def handleSendMessage_start_blank)
next
  assume st: "handleSendMessage_start customMessage clock render s = (s', Some captured)"
  show "\<not> isTyping render" using handleSendMessage_start_sends(1) [OF st] .
  show "s' = s\<lparr>messages := messages s @
                  [\<lparr> msg_id = clock 0, msg_role = js ''user'', content = fst captured,
                     msg_timestamp = ISOString (clock 1), sources = None, isError = False \<rparr>],
                inputMessage := [], isTyping := True, chat_error := None\<rparr>"
    using handleSendMessage_start_sends(5) [OF st] .
  show ne: "fst captured \<noteq> []" using handleSendMessage_start_sends(3) [OF st] .
  {
    assume "\<not> truthy customMessage"
    then have "or_else customMessage (trim (inputMessage render)) = trim (inputMessage render)"
      by (simp add: truthy_def or_else_def split: option.splits)
    then show t: "fst captured = trim (inputMessage render)"
      using handleSendMessage_start_sends(2) [OF st] by simp
    show "trim (fst captured) \<noteq> []"
      using ne trim_trim_nonempty unfolding t by blast
  }
  {
    fix m
    assume "customMessage = Some m" and "m \<noteq> []"
    then show "fst captured = m"
      using handleSendMessage_start_sends(2) [OF st] by (simp add: or_else_def)
  }
  {
    fix token
    show "handleSendMessage_issue env_url (Inr token) captured
         = Inr \<lparr> http_method = js ''POST'', url = API_BASE_URL env_url @ js ''/api/assistant/chat'',
                 bearer = token,
                 payload = ChatRequest (fst captured) (map_option teamId (selectedProject render)) True \<rparr>"
      using handleSendMessage_start_sends(4) [OF st]
      by (simp add: handleSendMessage_issue_def chat_request_def projectId_of_def)
  }
next
  assume st: "handleSendMessage_start customMessage clock s s = (s1, Some sent)"
  have whole: "handleSendMessage env_url clock io customMessage s
                 = handleSendMessage_settle env_url clock io sent s1"
    using st by (simp add: handleSendMessage_def)
  have m1: "length (messages s1) = length (messages s) + 1"
    using handleSendMessage_start_sends(5) [OF st] by simp
  {
    fix token
    assume "token_result io = Inr token"
    then show "snd (handleSendMessage env_url clock io customMessage s)
           = [GetIdToken,
              Fetch \<lparr> http_method = js ''POST'',
                      url = API_BASE_URL env_url @ js ''/api/assistant/chat'', bearer = token,
                      payload = ChatRequest (fst sent) (map_option teamId (selectedProject s)) True \<rparr>]"
      unfolding whole using handleSendMessage_start_sends(4) [OF st]
      by (simp add: handleSendMessage_settle_def handleSendMessage_issue_def chat_request_def
          projectId_of_def)
  }
  {
    fix e
    assume "token_result io = Inl e"
    then show "snd (handleSendMessage env_url clock io customMessage s) = [GetIdToken]"
      unfolding whole by (simp add: handleSendMessage_settle_def handleSendMessage_issue_def)
  }
  show "\<not> isTyping (fst (handleSendMessage env_url clock io customMessage s))"
    unfolding whole
    by (simp add: handleSendMessage_settle_def handleSendMessage_issue_def isTyping_catch
        isTyping_answer split: sum.splits)
  show "length (messages (fst (handleSendMessage env_url clock io customMessage s)))
        = length (messages s) + 2"
    unfolding whole using m1
    by (simp add: handleSendMessage_settle_def handleSendMessage_issue_def
        handleSendMessage_answer_def handleSendMessage_catch_def split: sum.splits)
next
  show "\<forall>p \<in> set PREDEFINED_PROMPTS. trim p \<noteq> []" using prompts_not_blank by blast
next
  show "int (length (filter is_chat_fetch (journal (run env_url avail acts initial_system))))
     \<le> int (length (filter is_call (journal (run env_url avail acts initial_system))))"
    by (rule any_run_one_request_per_call)
next
  assume r: "sends_follow_render True acts"
  show "0 \<le> open_chat_requests (journal (run env_url avail acts initial_system))"
    using r by (rule rendered_run)
  show "open_chat_requests (journal (run env_url avail acts initial_system)) \<le> 1"
    using r by (rule rendered_run)
  show "unsettled_calls (journal (run env_url avail acts initial_system)) \<le> 1"
    using r by (rule rendered_run)
  show "isTyping (ui (run env_url avail acts initial_system))
        = (unsettled_calls (journal (run env_url avail acts initial_system)) = 1)"
    using r by (rule rendered_run)
qed

theorem handleSendMessage_guard_witness:
  "isTyping typing0 \<and>
   handleSendMessage_start (Some (js ''Review my code'')) midnight typing0 chat0 = (chat0, None) \<and>
   handleSendMessage None midnight answer_io (Some (js ''Review my code'')) typing0 = (typing0, []) \<and>
   \<not> truthy None \<and> list_all isWhiteSpace (inputMessage blank0) \<and>
   handleSendMessage_start None midnight blank0 chat0 = (chat0, None) \<and>
   handleSendMessage None midnight answer_io None blank0 = (blank0, []) \<and>
   handleSendMessage_start None midnight chat0 chat0
     = (chat0\<lparr>messages := messages chat0 @
                  [\<lparr> msg_id = 0, msg_role = js ''user'', content = js ''hi'',
                     msg_timestamp = ISOString 0, sources = None, isError = False \<rparr>],
              inputMessage := [], isTyping := True, chat_error := None\<rparr>,
        Some (js ''hi'', None)) \<and>
   \<not> isTyping chat0 \<and> trim (js ''hi'') = js ''hi'' \<and>
   handleSendMessage_issue None (Inr (Some (js ''tok''))) (js ''hi'', None)
     = Inr \<lparr> http_method = js ''POST'', url = js ''http://127.0.0.2:8000/api/assistant/chat'',
             bearer = Some (js ''tok''), payload = ChatRequest (js ''hi'') None True \<rparr> \<and>
   snd (handleSendMessage_start (Some (js ''Review my code'')) midnight chat0 chat0)
     = Some (js ''Review my code'', None) \<and>
   list_all (\<lambda>p. trim p \<noteq> []) PREDEFINED_PROMPTS \<and>
   sends_follow_render True two_presses_rendered \<and>
   open_chat_requests (journal (run None [] two_presses_rendered initial_system)) = 1 \<and>
   unsettled_calls (journal (run None [] two_presses_rendered initial_system)) = 1 \<and>
   isTyping (ui (run None [] two_presses_rendered initial_system)) \<and>
   map content (messages (ui (run None [] two_presses_rendered initial_system)))
     = [js ''Help me debug an issue''] \<and>
   token_result answer_io = Inr (Some (js ''tok'')) \<and>
   snd (handleSendMessage None midnight answer_io None chat0)
     = [GetIdToken,
        Fetch \<lparr> http_method = js ''POST'', url = js ''http://127.0.0.2:8000/api/assistant/chat'',
                bearer = Some (js ''tok''), payload = ChatRequest (js ''hi'') None True \<rparr>] \<and>
   \<not> isTyping (fst (handleSendMessage None midnight answer_io None chat0)) \<and>
   map content (messages (fst (handleSendMessage None midnight answer_io None chat0)))
     = [js ''hi'', js ''ok'']"
proof -
  have ty: "isTyping typing0" by (simp add: typing0_def)
  have nt: "\<not> truthy None" by (simp add: truthy_def)
  have ws: "\<forall>c \<in> set (inputMessage blank0). isWhiteSpace c"
    by (simp add: blank0_def js_def isWhiteSpace_def)
  have st: "handleSendMessage_start None midnight chat0 chat0
     = (chat0\<lparr>messages := messages chat0 @
                  [\<lparr> msg_id = 0, msg_role = js ''user'', content = js ''hi'',
                     msg_timestamp = ISOString 0, sources = None, isError = False \<rparr>],
              inputMessage := [], isTyping := True, chat_error := None\<rparr>,
        Some (js ''hi'', None))"
    by (simp add: handleSendMessage_start_def userMessage_def or_else_def chat0_def
        projectId_of_def trim_def isWhiteSpace_def midnight_def Let_def js_def)
  have sp: "snd (handleSendMessage_start (Some (js ''Review my code'')) midnight chat0 chat0)
     = Some (js ''Review my code'', None)"
    by (simp add: handleSendMessage_start_def or_else_def chat0_def projectId_of_def Let_def js_def)
  have tr: "trim (js ''hi'') = js ''hi''" by (simp add: trim_def isWhiteSpace_def js_def)
  have ch: "\<not> isTyping chat0" by (simp add: chat0_def)
  have sf: "sends_follow_render True two_presses_rendered"
    by (simp add: two_presses_rendered_def)
  have op: "open_chat_requests (journal (run None [] two_presses_rendered initial_system)) = 1"
    by (simp add: two_presses_rendered_def initial_system_def initial_state_def
        call_handleSendMessage_def handlePredefinedPrompt_def handleSendMessage_start_def
        handleSendMessage_issue_def PREDEFINED_PROMPTS_def chat_request_def without_def
        or_else_def open_chat_requests_def is_chat_fetch_def is_answer_def Let_def js_def)
  have un: "unsettled_calls (journal (run None [] two_presses_rendered initial_system)) = 1"
    by (simp add: two_presses_rendered_def initial_system_def initial_state_def
        call_handleSendMessage_def handlePredefinedPrompt_def handleSendMessage_start_def
        handleSendMessage_issue_def PREDEFINED_PROMPTS_def chat_request_def without_def
        or_else_def unsettled_calls_def is_call_def is_settled_def Let_def js_def)
  have ms: "map content (messages (ui (run None [] two_presses_rendered initial_system)))
     = [js ''Help me debug an issue'']"
    by (simp add: two_presses_rendered_def initial_system_def initial_state_def
        call_handleSendMessage_def handlePredefinedPrompt_def handleSendMessage_start_def
        handleSendMessage_issue_def PREDEFINED_PROMPTS_def userMessage_def without_def
        or_else_def Let_def js_def)
  have n1: "handleSendMessage_start (Some (js ''Review my code'')) midnight typing0 chat0 = (chat0, None)"
    using ty handleSendMessage_guard [where render = typing0 and s = chat0 and clock = midnight
      and customMessage = "Some (js ''Review my code'')"] by blast
  have n2: "handleSendMessage None midnight answer_io (Some (js ''Review my code'')) typing0 = (typing0, [])"
    using ty handleSendMessage_guard [where s = typing0 and env_url = None and clock = midnight
      and io = answer_io and customMessage = "Some (js ''Review my code'')"] by blast
  have n3: "handleSendMessage_start None midnight blank0 chat0 = (chat0, None)"
    using nt ws handleSendMessage_guard [where render = blank0 and s = chat0 and clock = midnight
      and customMessage = None] by blast
  have n4: "handleSendMessage None midnight answer_io None blank0 = (blank0, [])"
    using nt ws handleSendMessage_guard [where s = blank0 and env_url = None and clock = midnight
      and io = answer_io and customMessage = None] by blast
  have lw: "list_all isWhiteSpace (inputMessage blank0)" using ws by (simp add: list_all_iff)
  have lp: "list_all (\<lambda>p. trim p \<noteq> []) PREDEFINED_PROMPTS"
    using handleSendMessage_guard [where s = chat0] by (simp add: list_all_iff)
  have iss: "handleSendMessage_issue None (Inr (Some (js ''tok''))) (js ''hi'', None)
     = Inr \<lparr> http_method = js ''POST'', url = js ''http://127.0.0.2:8000/api/assistant/chat'',
             bearer = Some (js ''tok''), payload = ChatRequest (js ''hi'') None True \<rparr>"
    by (simp add: handleSendMessage_issue_def chat_request_def API_BASE_URL_def or_else_def js_def)
  have it: "isTyping (ui (run None [] two_presses_rendered initial_system))"
    using sf un handleSendMessage_guard [where env_url = None and avail = "[]"
      and acts = two_presses_rendered] by blast
  have tk: "token_result answer_io = Inr (Some (js ''tok''))" by (simp add: answer_io_def)
  have wh: "handleSendMessage None midnight answer_io None chat0
     = (chat0\<lparr>messages := [userMessage midnight (js ''hi''),
                              assistantMessage midnight
                                \<lparr> chat_detail = None, chat_response = js ''ok'',
                                  chat_timestamp = js ''t1'', chat_sources = None \<rparr>],
               inputMessage := [], isTyping := False, chat_error := None\<rparr>,
        [GetIdToken, Fetch (chat_request None (Some (js ''tok'')) (js ''hi'') None)])"
    by (simp add: handleSendMessage_def handleSendMessage_start_def handleSendMessage_settle_def
        handleSendMessage_issue_def handleSendMessage_answer_def answer_io_def chat0_def ok_def
        projectId_of_def or_else_def trim_def isWhiteSpace_def Let_def js_def)
  have w1: "snd (handleSendMessage None midnight answer_io None chat0)
     = [GetIdToken,
        Fetch \<lparr> http_method = js ''POST'', url = js ''http://127.0.0.2:8000/api/assistant/chat'',
                bearer = Some (js ''tok''), payload = ChatRequest (js ''hi'') None True \<rparr>]"
    unfolding wh by (simp add: chat_request_def API_BASE_URL_def or_else_def js_def)
  have w2: "\<not> isTyping (fst (handleSendMessage None midnight answer_io None chat0))"
    unfolding wh by simp
  have w3: "map content (messages (fst (handleSendMessage None midnight answer_io None chat0)))
     = [js ''hi'', js ''ok'']"
    unfolding wh by (simp add: userMessage_def assistantMessage_def)
  show ?thesis
    by (intro conjI) (fact ty n1 n2 nt lw n3 n4 st ch tr iss sp lp sf op un it ms tk w1 w2 w3)+
qed

end
